theory Spec2Isabelle
  imports Complex_Main "HOL-Library.Word"
begin

section \<open>Conventions of the embedding\<close>

text \<open>
  The Go sources are embedded function by function.  A \<^verbatim>\<open>float64\<close> price or amount is
  a \<^typ>\<open>real\<close>: rounding error, infinities and NaN are outside the model.  A
  \<^verbatim>\<open>time.Time\<close> is the instant it denotes, an \<^typ>\<open>int\<close> counting nanoseconds from
  Go's zero time (1 January of year 1, UTC); a \<^verbatim>\<open>time.Duration\<close> is an \<^typ>\<open>int\<close>
  of nanoseconds inside the signed 64-bit range.  An \<^verbatim>\<open>int64\<close> counter is a
  \<^typ>\<open>64 word\<close>.  Locks are omitted: every method below holds its lock for its
  whole body, so it is one atomic step on the state it guards.  Log lines are not state.
\<close>

section \<open>Strategy runtime: lot sizing (services, \<^verbatim>\<open>CalculateLots\<close>, \<^verbatim>\<open>roundLots\<close>)\<close>

text \<open>\<^verbatim>\<open>func abs(x float64) float64\<close>\<close>

definition abs_f :: "real \<Rightarrow> real" where
  "abs_f x = (if x < 0 then - x else x)"

text \<open>
  Go's conversion \<^verbatim>\<open>int(x)\<close> of a float discards the fraction, that is, it rounds
  towards zero.
\<close>

definition go_int :: "real \<Rightarrow> int" where
  "go_int x = (if 0 \<le> x then \<lfloor>x\<rfloor> else \<lceil>x\<rceil>)"

text \<open>\<^verbatim>\<open>func roundLots(lots float64) float64 { return float64(int(lots*100+0.5)) / 100 }\<close>\<close>

definition roundLots :: "real \<Rightarrow> real" where
  "roundLots lots = real_of_int (go_int (lots * 100 + 0.5)) / 100"

text \<open>\<^verbatim>\<open>func (b *BaseEAStrategy) CalculateLots(balance, riskPercent, entryPrice, stopLoss float64) float64\<close>\<close>

definition CalculateLots :: "real \<Rightarrow> real \<Rightarrow> real \<Rightarrow> real \<Rightarrow> real" where
  "CalculateLots balance riskPercent entryPrice stopLoss =
     (let riskAmount = balance * riskPercent / 100;
          pointsRisk = abs_f (entryPrice - stopLoss)
      in if pointsRisk = 0 then 0.01
         else
           let pointValue = 10.0;
               lots = riskAmount / (pointsRisk * pointValue);
               lots = (if lots < 0.01 then 0.01 else lots);
               lots = (if lots > 10.0 then 10.0 else lots)
           in roundLots lots)"

text \<open>
  The spec's words for the same quantity: the risk amount over the price distance times
  the point value, clamped to the interval from 0.01 to 10.
\<close>

definition spec_clamp :: "real \<Rightarrow> real \<Rightarrow> real \<Rightarrow> real" where
  "spec_clamp x lo hi = max lo (min hi x)"

definition spec_lots :: "real \<Rightarrow> real \<Rightarrow> real \<Rightarrow> real \<Rightarrow> real" where
  "spec_lots balance risk_percent entry stop =
     (let riskAmount = balance * risk_percent / 100; pointValue = 10
      in spec_clamp (riskAmount / (\<bar>entry - stop\<bar> * pointValue)) 0.01 10.0)"

section \<open>Strategy runtime: trade manager and strategy instance\<close>

text \<open>\<^verbatim>\<open>type User struct\<close>: the per-user margin ledger.\<close>

record User =
  UserID :: string
  Username :: string
  Balance :: real
  Equity :: real
  Margin :: real
  FreeMargin :: real

text \<open>
  \<^verbatim>\<open>type Position struct\<close>.  \<^verbatim>\<open>OpenTime\<close> is read from the clock, which is an
  argument of the functions below; the zero \<^verbatim>\<open>time.Time\<close> is instant 0.
\<close>

record Position =
  pos_PositionID :: string
  pos_UserID :: string
  pos_EAID :: string
  pos_Symbol :: string
  pos_Type :: string
  pos_Lots :: real
  pos_OpenPrice :: real
  pos_StopLoss :: real
  pos_TakeProfit :: real
  pos_OpenTime :: int
  pos_CloseTime :: int
  pos_ClosePrice :: real
  pos_Profit :: real
  pos_Status :: string

record TradeRequest =
  req_UserID :: string
  req_EAID :: string
  req_MT4AccountID :: "64 word"
  req_Symbol :: string
  req_Type :: string
  req_Lots :: real
  req_StopLoss :: real
  req_TakeProfit :: real

text \<open>
  The response messages are fixed texts in the source; they are named here by what they
  say: the user is unknown, the free margin is too small, the position was opened.
\<close>

datatype TradeMessage = UserNotFound | InsufficientMargin | Opened

record TradeResponse =
  Success :: bool
  resp_PositionID :: string
  Message :: TradeMessage

text \<open>
  \<^verbatim>\<open>type TradeManager struct\<close>.  The \<^verbatim>\<open>users\<close> map holds pointers; every
  registered \<^verbatim>\<open>User\<close> object is allocated in \<^verbatim>\<open>StartEA\<close> for this map alone (the
  strategy instance gets a second object), so updating the object is updating the map entry.
\<close>

record TradeManager =
  positions :: "string \<rightharpoonup> Position"
  users :: "string \<rightharpoonup> User"

definition NewTradeManager :: TradeManager where
  "NewTradeManager = \<lparr>positions = Map.empty, users = Map.empty\<rparr>"

definition RegisterUser :: "TradeManager \<Rightarrow> User \<Rightarrow> TradeManager" where
  "RegisterUser tm user = tm\<lparr>users := (users tm)(UserID user \<mapsto> user)\<rparr>"

text \<open>
  \<^verbatim>\<open>func (tm *TradeManager) ExecuteTrade(req TradeRequest) TradeResponse\<close>.  The
  identifier drawn by \<^verbatim>\<open>uuid.New().String()\<close> and the clock reading \<^verbatim>\<open>time.Now()\<close>
  come from outside and are the arguments \<open>newid\<close> and \<open>now\<close>.
\<close>

definition ExecuteTrade ::
  "TradeManager \<Rightarrow> TradeRequest \<Rightarrow> string \<Rightarrow> int \<Rightarrow> TradeManager \<times> TradeResponse" where
  "ExecuteTrade tm req newid now =
     (case users tm (req_UserID req) of
        None \<Rightarrow> (tm, \<lparr>Success = False, resp_PositionID = [], Message = UserNotFound\<rparr>)
      | Some user \<Rightarrow>
          let requiredMargin = req_Lots req * 1000 in
          if FreeMargin user < requiredMargin
          then (tm, \<lparr>Success = False, resp_PositionID = [], Message = InsufficientMargin\<rparr>)
          else
            let position =
                  \<lparr>pos_PositionID = newid, pos_UserID = req_UserID req, pos_EAID = req_EAID req,
                   pos_Symbol = req_Symbol req, pos_Type = req_Type req, pos_Lots = req_Lots req,
                   pos_OpenPrice = 0, pos_StopLoss = req_StopLoss req,
                   pos_TakeProfit = req_TakeProfit req, pos_OpenTime = now, pos_CloseTime = 0,
                   pos_ClosePrice = 0, pos_Profit = 0, pos_Status = ''OPEN''\<rparr>;
                user' = user\<lparr>Margin := Margin user + requiredMargin\<rparr>;
                user'' = user'\<lparr>FreeMargin := FreeMargin user' - requiredMargin\<rparr>
            in (tm\<lparr>users := (users tm)(req_UserID req \<mapsto> user''),
                    positions := (positions tm)(pos_PositionID position \<mapsto> position)\<rparr>,
                \<lparr>Success = True, resp_PositionID = pos_PositionID position, Message = Opened\<rparr>))"

record Signal =
  sig_Symbol :: string
  sig_Timeframe :: string
  sig_Type :: string
  sig_Price :: real
  sig_StopLoss :: real
  sig_Trend :: int
  sig_Timestamp :: int

text \<open>\<^verbatim>\<open>type EAConfig struct\<close>, without the opaque \<^verbatim>\<open>Params\<close> map.\<close>

record EAConfig =
  cfg_EAID :: string
  cfg_UserID :: string
  cfg_EAName :: string
  cfg_Symbol :: string
  cfg_Timeframe :: string
  cfg_Strategy :: string
  cfg_RiskPercent :: real
  cfg_MaxPositions :: int
  cfg_Enabled :: bool
  cfg_MT4AccountID :: "64 word"

text \<open>
  \<^verbatim>\<open>type StrategyEAInstance struct\<close>: the fields that \<^verbatim>\<open>executeSignal\<close> reads and
  writes.  The strategy is an interface value; both implementations (\<^verbatim>\<open>GreenArrowEA\<close>,
  \<^verbatim>\<open>MACDEA\<close>) embed \<^verbatim>\<open>BaseEAStrategy\<close> and so size lots with \<^const>\<open>CalculateLots\<close>.
\<close>

record StrategyEAInstance =
  ea_orderID :: "64 word"
  ea_config :: EAConfig
  ea_user :: User
  ea_positions :: "string \<rightharpoonup> Position"
  ea_paused :: bool
  ea_stopped :: bool

text \<open>
  \<^verbatim>\<open>func (ea *StrategyEAInstance) executeSignal(signal Signal)\<close>, acting on the instance
  and on the trade manager it holds.  \<open>now\<close> is the clock inside \<^verbatim>\<open>ExecuteTrade\<close>,
  \<open>now'\<close> the later reading for the local copy.  \<^verbatim>\<open>len(ea.positions)\<close> is the number
  of keys of the map.
\<close>

definition executeSignal ::
  "StrategyEAInstance \<Rightarrow> TradeManager \<Rightarrow> Signal \<Rightarrow> string \<Rightarrow> int \<Rightarrow> int
     \<Rightarrow> StrategyEAInstance \<times> TradeManager" where
  "executeSignal ea tm signal newid now now' =
     (let openCount = int (card (dom (ea_positions ea))) in
      if openCount \<ge> cfg_MaxPositions (ea_config ea) then (ea, tm)
      else
        let lots = CalculateLots (Balance (ea_user ea)) (cfg_RiskPercent (ea_config ea))
                     (sig_Price signal) (sig_StopLoss signal);
            req = \<lparr>req_UserID = UserID (ea_user ea), req_EAID = cfg_EAID (ea_config ea),
                   req_MT4AccountID = cfg_MT4AccountID (ea_config ea),
                   req_Symbol = sig_Symbol signal, req_Type = sig_Type signal, req_Lots = lots,
                   req_StopLoss = sig_StopLoss signal, req_TakeProfit = 0\<rparr>;
            (tm', resp) = ExecuteTrade tm req newid now
        in if Success resp then
             let position =
                   \<lparr>pos_PositionID = resp_PositionID resp, pos_UserID = req_UserID req,
                    pos_EAID = req_EAID req, pos_Symbol = req_Symbol req, pos_Type = req_Type req,
                    pos_Lots = req_Lots req, pos_OpenPrice = sig_Price signal,
                    pos_StopLoss = req_StopLoss req, pos_TakeProfit = req_TakeProfit req,
                    pos_OpenTime = now', pos_CloseTime = 0, pos_ClosePrice = 0, pos_Profit = 0,
                    pos_Status = ''OPEN''\<rparr>
             in (ea\<lparr>ea_positions := (ea_positions ea)(resp_PositionID resp \<mapsto> position)\<rparr>, tm')
           else (ea, tm'))"

text \<open>Sample inputs: a registered user with 8000 of free margin, and an instance for them.\<close>

definition demo_user :: User where
  "demo_user = \<lparr>UserID = ''7'', Username = ''ann'', Balance = 10000, Equity = 0, Margin = 0,
                 FreeMargin = 8000\<rparr>"

definition demo_tm :: TradeManager where
  "demo_tm = RegisterUser NewTradeManager demo_user"

definition demo_req :: "real \<Rightarrow> TradeRequest" where
  "demo_req lots = \<lparr>req_UserID = ''7'', req_EAID = ''ea1'', req_MT4AccountID = 1,
                     req_Symbol = ''XAUUSD'', req_Type = ''BUY'', req_Lots = lots,
                     req_StopLoss = 2640, req_TakeProfit = 0\<rparr>"

definition demo_cfg :: EAConfig where
  "demo_cfg = \<lparr>cfg_EAID = ''ea1'', cfg_UserID = ''7'', cfg_EAName = ''GreenArrow'',
                cfg_Symbol = ''XAUUSD'', cfg_Timeframe = ''M1'', cfg_Strategy = ''trend_following'',
                cfg_RiskPercent = 1, cfg_MaxPositions = 3, cfg_Enabled = True,
                cfg_MT4AccountID = 1\<rparr>"

definition demo_ea :: StrategyEAInstance where
  "demo_ea = \<lparr>ea_orderID = 42, ea_config = demo_cfg, ea_user = demo_user,
               ea_positions = Map.empty, ea_paused = False, ea_stopped = False\<rparr>"

definition demo_signal :: Signal where
  "demo_signal = \<lparr>sig_Symbol = ''XAUUSD'', sig_Timeframe = ''M1'', sig_Type = ''BUY'',
                   sig_Price = 2650, sig_StopLoss = 2640, sig_Trend = 1, sig_Timestamp = 0\<rparr>"

section \<open>Bar events (candle service and writer, \<^verbatim>\<open>Candle\<close>, \<^verbatim>\<open>PublishEvent\<close>)\<close>

text \<open>
  \<^verbatim>\<open>type Candle struct\<close>, declared with the same fields by the candle service and by
  the writer.
\<close>

record Candle =
  Symbol :: string
  Timeframe :: string
  StartTime :: int
  Open :: real
  High :: real
  Low :: real
  Close :: real
  Volume :: "64 word"

record PublishEvent =
  Status :: string
  ev_Candle :: Candle

section \<open>Writer (\<^verbatim>\<open>DBWriterService\<close>)\<close>

text \<open>
  The table \<^verbatim>\<open>klines\<close> is the list of its rows.  The statement run by
  \<^verbatim>\<open>insertKlineToDB\<close> is
  \<^verbatim>\<open>INSERT INTO klines (...) VALUES (...) ON CONFLICT (symbol, timeframe, start_time) DO NOTHING\<close>:
  the database adds the row unless a row with the same three columns is there, in which
  case it changes nothing and reports no error.
\<close>

type_synonym klines = "Candle list"

definition conflict_key :: "Candle \<Rightarrow> string \<times> string \<times> int" where
  "conflict_key c = (Symbol c, Timeframe c, StartTime c)"

definition insert_on_conflict_do_nothing :: "klines \<Rightarrow> Candle \<Rightarrow> klines" where
  "insert_on_conflict_do_nothing tbl c =
     (if conflict_key c \<in> set (map conflict_key tbl) then tbl else tbl @ [c])"

datatype db_error = ExecFailed

text \<open>
  \<^verbatim>\<open>func (s *DBWriterService) insertKlineToDB(c Candle) error\<close>.  Whether
  \<^verbatim>\<open>NamedExec\<close> gets the statement executed (connection up, no database error) is not
  decided by the program; it is the argument \<open>executes\<close>.
\<close>

definition insertKlineToDB :: "klines \<Rightarrow> Candle \<Rightarrow> bool \<Rightarrow> klines \<times> db_error option" where
  "insertKlineToDB db c executes =
     (if executes then (insert_on_conflict_do_nothing db c, None) else (db, Some ExecFailed))"

text \<open>
  \<^verbatim>\<open>func (s *DBWriterService) processMessage(msg *redis.Message)\<close>.  The payload is
  given by what \<^verbatim>\<open>ParseEvent\<close> makes of it: \<open>None\<close> when the JSON does not decode.
  Both outcomes of the insert only write a log line.
\<close>

definition processMessage :: "klines \<Rightarrow> PublishEvent option \<Rightarrow> bool \<Rightarrow> klines" where
  "processMessage db payload executes =
     (case payload of
        None \<Rightarrow> db
      | Some event \<Rightarrow>
          if Status event \<noteq> ''CLOSE'' then db
          else fst (insertKlineToDB db (ev_Candle event) executes))"

text \<open>The loop of \<^verbatim>\<open>Run\<close> over the messages of the subscription, one after the other.\<close>

fun Run_writer :: "klines \<Rightarrow> (PublishEvent option \<times> bool) list \<Rightarrow> klines" where
  "Run_writer db [] = db"
| "Run_writer db ((payload, executes) # rest) = Run_writer (processMessage db payload executes) rest"

text \<open>The number of rows of the table under one key.\<close>

definition rows_for :: "klines \<Rightarrow> string \<times> string \<times> int \<Rightarrow> nat" where
  "rows_for db k = length (filter (\<lambda>r. conflict_key r = k) db)"

definition demo_bar :: Candle where
  "demo_bar = \<lparr>Symbol = ''XAUUSD'', Timeframe = ''M1'', StartTime = 600, Open = 2650,
                High = 2655, Low = 2650, Close = 2655, Volume = 2\<rparr>"

section \<open>Time (package \<^verbatim>\<open>time\<close> of the Go library, as the sources use it)\<close>

text \<open>
  \<^verbatim>\<open>Truncate\<close> rounds an instant down to a multiple of the duration, counted from the
  zero time, and returns the instant unchanged for a duration that is not positive.
  \<^verbatim>\<open>Sub\<close> returns the difference as a \<^verbatim>\<open>Duration\<close>, and the largest or smallest
  \<^verbatim>\<open>Duration\<close> when the difference does not fit into 64 bits.
\<close>

definition Second :: int where "Second = 1000000000"
definition Minute :: int where "Minute = 60 * Second"
definition Hour :: int where "Hour = 60 * Minute"

definition maxDuration :: int where "maxDuration = 2 ^ 63 - 1"
definition minDuration :: int where "minDuration = - (2 ^ 63)"

definition time_Truncate :: "int \<Rightarrow> int \<Rightarrow> int" where
  "time_Truncate t d = (if d \<le> 0 then t else t - t mod d)"

definition time_Sub :: "int \<Rightarrow> int \<Rightarrow> int" where
  "time_Sub t u =
     (let d = t - u in
      if d > maxDuration then maxDuration else if d < minDuration then minDuration else d)"

definition time_Add :: "int \<Rightarrow> int \<Rightarrow> int" where
  "time_Add t d = t + d"

text \<open>
  A run-time panic of the Go program ends the call; it is a value of the model.
\<close>

datatype go_panic = DivideByZero | IndexOutOfRange | MakeSliceOutOfRange

text \<open>
  Division of 64-bit integers: a panic for divisor zero, else the quotient rounded
  towards zero and wrapped to 64 bits.
\<close>

definition go_div :: "int \<Rightarrow> int \<Rightarrow> go_panic + int" where
  "go_div a b =
     (if b = 0 then Inl DivideByZero
      else Inr (signed_take_bit 63 (sgn a * sgn b * (\<bar>a\<bar> div \<bar>b\<bar>))))"

section \<open>Tick parser (\<^verbatim>\<open>UpstreamQuote\<close>, \<^verbatim>\<open>CleanTick\<close>, \<^verbatim>\<open>parseQuote\<close>, \<^verbatim>\<open>HandleRawQuote\<close>)\<close>

text \<open>
  \<^verbatim>\<open>type UpstreamQuote struct\<close> with its nested \<^verbatim>\<open>Data\<close> and \<^verbatim>\<open>Args\<close>.  A field missing
  from the JSON frame has Go's zero value: the empty string, the number 0.
\<close>

record QuoteArgs =
  args_Symbol :: string
  Bid :: real
  Ask :: real
  args_Time :: string
  args_High :: real
  args_Low :: real
  Spread :: real

record QuoteData =
  Args :: QuoteArgs
  data_Id :: "64 word"
  Login :: "64 word"
  PlatformId :: "64 word"

record UpstreamQuote =
  quote_Id :: "64 word"
  quote_Type :: string
  Data :: QuoteData

record CleanTick =
  tick_Symbol :: string
  Price :: real
  tick_Volume :: "64 word"
  Timestamp :: int

datatype parse_error = NotAQuoteMessage | InvalidTimeFormat string

text \<open>\<^verbatim>\<open>strings.Contains(s, ".")\<close> and \<^verbatim>\<open>strings.SplitN(s, ".", 2)\<close>.\<close>

definition Contains_dot :: "string \<Rightarrow> bool" where
  "Contains_dot s = (CHR ''.'' \<in> set s)"

definition SplitN_dot_2 :: "string \<Rightarrow> string list" where
  "SplitN_dot_2 s =
     (if Contains_dot s
      then [takeWhile (\<lambda>c. c \<noteq> CHR ''.'') s, tl (dropWhile (\<lambda>c. c \<noteq> CHR ''.'') s)]
      else [s])"

text \<open>
  \<^verbatim>\<open>func (m *AggregatorManager) parseQuote(quote UpstreamQuote) (CleanTick, error)\<close>.
  The library call \<^verbatim>\<open>time.ParseInLocation("2006-01-02T15:04:05", s, time.UTC)\<close> is the
  argument \<open>ParseInLocation\<close>: it gives the instant, or \<open>None\<close> for its error.
\<close>

definition parseQuote :: "(string \<Rightarrow> int option) \<Rightarrow> UpstreamQuote \<Rightarrow> parse_error + CleanTick" where
  "parseQuote ParseInLocation quote =
     (if quote_Type quote \<noteq> ''Quote'' then Inl NotAQuoteMessage
      else
        let args = Args (Data quote) in
        case ParseInLocation (args_Time args) of
          None \<Rightarrow> Inl (InvalidTimeFormat (args_Time args))
        | Some ts \<Rightarrow>
            let cleanSymbol = args_Symbol args;
                cleanSymbol = (if Contains_dot cleanSymbol then hd (SplitN_dot_2 cleanSymbol)
                               else cleanSymbol)
            in Inr \<lparr>tick_Symbol = cleanSymbol, Price = Bid args, tick_Volume = 1,
                    Timestamp = ts\<rparr>)"

text \<open>
  \<^verbatim>\<open>func (m *AggregatorManager) HandleRawQuote(quote UpstreamQuote)\<close>, up to the hand-over.
  On a parse error the function writes the log line ``Failed to parse quote'' with the error
  and returns, touching nothing.  Otherwise it looks up the queue of the tick's symbol,
  creating queue and worker on first sight, and sends the tick to it; the send races with
  the worker and is not modelled further.
\<close>

datatype handled = Dropped_with_log parse_error | Dispatched CleanTick

definition HandleRawQuote :: "(string \<Rightarrow> int option) \<Rightarrow> UpstreamQuote \<Rightarrow> handled" where
  "HandleRawQuote ParseInLocation quote =
     (case parseQuote ParseInLocation quote of
        Inl err \<Rightarrow> Dropped_with_log err
      | Inr cleanTick \<Rightarrow> Dispatched cleanTick)"

text \<open>
  A sample clock reading: 24 November 2025, 00:00:00 UTC, in nanoseconds from the zero
  time; a sample parser that knows two time strings of that day; a sample quote.
\<close>

definition demo_day :: int where
  "demo_day = 63899539200 * Second"

definition demo_parse :: "string \<Rightarrow> int option" where
  "demo_parse s =
     (if s = ''2025-11-24T10:00:15'' then Some (demo_day + 10 * Hour + 15 * Second)
      else if s = ''2025-11-24T10:03:10'' then Some (demo_day + 10 * Hour + 3 * Minute + 10 * Second)
      else None)"

definition demo_quote :: "string \<Rightarrow> string \<Rightarrow> string \<Rightarrow> UpstreamQuote" where
  "demo_quote ty symb tm =
     \<lparr>quote_Id = 0, quote_Type = ty,
      Data = \<lparr>Args = \<lparr>args_Symbol = symb, Bid = 2650, Ask = 2651, args_Time = tm, args_High = 0,
                      args_Low = 0, Spread = 0\<rparr>,
              data_Id = 0, Login = 0, PlatformId = 0\<rparr>\<rparr>"

section \<open>Aggregator (\<^verbatim>\<open>TimeframeAggregator\<close>)\<close>

text \<open>
  \<^verbatim>\<open>type TimeframeAggregator struct\<close>: one state machine per symbol and timeframe.
  \<^verbatim>\<open>Timeframe\<close> is the period as a \<^verbatim>\<open>time.Duration\<close>.
\<close>

record TimeframeAggregator =
  agg_Symbol :: string
  agg_Timeframe :: int
  TfName :: string
  currentCandle :: "Candle option"
  redisChannel :: string

definition NewTimeframeAggregator :: "string \<Rightarrow> string \<Rightarrow> int \<Rightarrow> TimeframeAggregator" where
  "NewTimeframeAggregator symbol tfName timeframe =
     \<lparr>agg_Symbol = symbol, agg_Timeframe = timeframe, TfName = tfName, currentCandle = None,
      redisChannel = ''kline:'' @ symbol @ '':'' @ tfName\<rparr>"

text \<open>
  \<^verbatim>\<open>NewSymbolAggregator\<close> builds the seven machines of a symbol; these are their names
  and periods.
\<close>

definition timeframes :: "(string \<times> int) list" where
  "timeframes =
     [(''M1'', Minute), (''M5'', 5 * Minute), (''M15'', 15 * Minute), (''M30'', 30 * Minute),
      (''H1'', Hour), (''H4'', 4 * Hour), (''D1'', 24 * Hour)]"

definition NewSymbolAggregator :: "string \<Rightarrow> (string \<rightharpoonup> TimeframeAggregator)" where
  "NewSymbolAggregator symbol =
     map_of (map (\<lambda>(tfName, timeframe). (tfName, NewTimeframeAggregator symbol tfName timeframe))
               timeframes)"

text \<open>The helpers \<^verbatim>\<open>max\<close> and \<^verbatim>\<open>min\<close> at the end of the aggregator's source file.\<close>

definition max_f :: "real \<Rightarrow> real \<Rightarrow> real" where
  "max_f a b = (if a > b then a else b)"

definition min_f :: "real \<Rightarrow> real \<Rightarrow> real" where
  "min_f a b = (if a < b then a else b)"

text \<open>
  \<^verbatim>\<open>func (t *TimeframeAggregator) publishCandle(status string)\<close>: the event handed to the
  bus, none without a current bar.  Every publish runs in a goroutine of its own; the lists
  of events below are in the order in which the program starts these goroutines.
\<close>

definition publishCandle :: "TimeframeAggregator \<Rightarrow> string \<Rightarrow> PublishEvent list" where
  "publishCandle t status =
     (case currentCandle t of
        None \<Rightarrow> []
      | Some c \<Rightarrow> [\<lparr>Status = status, ev_Candle = c\<rparr>])"

text \<open>
  The loop of \<^verbatim>\<open>fillMissingBars\<close>, with the iterations that remain as last argument:
  each round advances \<open>currentTime\<close> by the period and publishes a flat bar as \<open>CLOSE\<close>.
\<close>

fun fill_loop :: "TimeframeAggregator \<Rightarrow> real \<Rightarrow> int \<Rightarrow> nat \<Rightarrow> PublishEvent list" where
  "fill_loop t lastClose currentTime 0 = []"
| "fill_loop t lastClose currentTime (Suc n) =
     (let currentTime = time_Add currentTime (agg_Timeframe t);
          missingCandle =
            \<lparr>Symbol = agg_Symbol t, Timeframe = TfName t, StartTime = currentTime,
             Open = lastClose, High = lastClose, Low = lastClose, Close = lastClose, Volume = 0\<rparr>
      in \<lparr>Status = ''CLOSE'', ev_Candle = missingCandle\<rparr> # fill_loop t lastClose currentTime n)"

text \<open>\<^verbatim>\<open>func (t *TimeframeAggregator) fillMissingBars(count int)\<close>\<close>

definition fillMissingBars :: "TimeframeAggregator \<Rightarrow> int \<Rightarrow> PublishEvent list" where
  "fillMissingBars t count =
     (case currentCandle t of
        None \<Rightarrow> []
      | Some cur \<Rightarrow>
          if count \<le> 0 then []
          else fill_loop t (Close cur) (StartTime cur) (nat count))"

text \<open>
  \<^verbatim>\<open>func (t *TimeframeAggregator) ProcessTick(tick CleanTick)\<close>: the new state and the
  events published, or the panic of the division when the period is zero.
\<close>

definition ProcessTick ::
  "TimeframeAggregator \<Rightarrow> CleanTick \<Rightarrow> go_panic + (TimeframeAggregator \<times> PublishEvent list)" where
  "ProcessTick t tick =
     (let tickWindowStart = time_Truncate (Timestamp tick) (agg_Timeframe t);
          fresh = \<lparr>Symbol = agg_Symbol t, Timeframe = TfName t, StartTime = tickWindowStart,
                   Open = Price tick, High = Price tick, Low = Price tick, Close = Price tick,
                   Volume = tick_Volume tick\<rparr>
      in case currentCandle t of
           None \<Rightarrow>
             (let t' = t\<lparr>currentCandle := Some fresh\<rparr>
              in Inr (t', publishCandle t' ''UPDATE''))
         | Some cur \<Rightarrow>
             if tickWindowStart > StartTime cur then
               (case go_div (time_Sub tickWindowStart (StartTime cur)) (agg_Timeframe t) of
                  Inl p \<Rightarrow> Inl p
                | Inr missedBars \<Rightarrow>
                    (let filled = (if missedBars > 1 then fillMissingBars t (missedBars - 1) else []);
                         closing = publishCandle t ''CLOSE'';
                         t' = t\<lparr>currentCandle := Some fresh\<rparr>
                     in Inr (t', filled @ closing @ publishCandle t' ''UPDATE'')))
             else if tickWindowStart = StartTime cur then
               (let cur' = cur\<lparr>High := max_f (High cur) (Price tick),
                               Low := min_f (Low cur) (Price tick),
                               Close := Price tick,
                               Volume := Volume cur + tick_Volume tick\<rparr>;
                    t' = t\<lparr>currentCandle := Some cur'\<rparr>
                in Inr (t', publishCandle t' ''UPDATE''))
             else Inr (t, []))"

text \<open>
  The worker of a symbol passes its ticks one by one to the machine of a timeframe; this is
  the run of one machine over a tick sequence, with all events it publishes.
\<close>

fun run_ticks ::
  "TimeframeAggregator \<Rightarrow> CleanTick list \<Rightarrow> go_panic + (TimeframeAggregator \<times> PublishEvent list)" where
  "run_ticks t [] = Inr (t, [])"
| "run_ticks t (tick # ticks) =
     (case ProcessTick t tick of
        Inl p \<Rightarrow> Inl p
      | Inr (t', evs) \<Rightarrow>
          (case run_ticks t' ticks of
             Inl p \<Rightarrow> Inl p
           | Inr (t'', evs') \<Rightarrow> Inr (t'', evs @ evs')))"

definition events_of :: "go_panic + (TimeframeAggregator \<times> PublishEvent list) \<Rightarrow> PublishEvent list" where
  "events_of r = (case r of Inl p \<Rightarrow> [] | Inr (t, evs) \<Rightarrow> evs)"

definition state_of :: "go_panic + (TimeframeAggregator \<times> PublishEvent list) \<Rightarrow> TimeframeAggregator option" where
  "state_of r = (case r of Inl p \<Rightarrow> None | Inr (t, evs) \<Rightarrow> Some t)"

text \<open>The flat bar with which the machine \<open>t\<close> fills the \<open>k\<close>-th period after the bar \<open>c\<close>.\<close>

definition gap_bar :: "TimeframeAggregator \<Rightarrow> Candle \<Rightarrow> int \<Rightarrow> Candle" where
  "gap_bar t c k =
     \<lparr>Symbol = agg_Symbol t, Timeframe = TfName t, StartTime = StartTime c + k * agg_Timeframe t,
      Open = Close c, High = Close c, Low = Close c, Close = Close c, Volume = 0\<rparr>"

text \<open>The bar a tick opens in the window that starts at \<open>w\<close>.\<close>

definition opened_bar :: "TimeframeAggregator \<Rightarrow> CleanTick \<Rightarrow> int \<Rightarrow> Candle" where
  "opened_bar t tick w =
     \<lparr>Symbol = agg_Symbol t, Timeframe = TfName t, StartTime = w,
      Open = Price tick, High = Price tick, Low = Price tick, Close = Price tick,
      Volume = tick_Volume tick\<rparr>"

text \<open>Sample machine and ticks: XAUUSD on M1, ticks at 10:00:15 and at 10:03:10.\<close>

definition demo_m1 :: TimeframeAggregator where
  "demo_m1 = NewTimeframeAggregator ''XAUUSD'' ''M1'' Minute"

definition demo_tick :: "int \<Rightarrow> real \<Rightarrow> CleanTick" where
  "demo_tick instant price =
     \<lparr>tick_Symbol = ''XAUUSD'', Price = price, tick_Volume = 1, Timestamp = instant\<rparr>"

text \<open>
  A daily machine whose current bar is that of 24 November 2025, and a tick 110000 days
  later (the year 2327 is within the four-digit years the time layout admits).
\<close>

definition demo_d1 :: TimeframeAggregator where
  "demo_d1 =
     (NewTimeframeAggregator ''XAUUSD'' ''D1'' (24 * Hour))
       \<lparr>currentCandle :=
          Some \<lparr>Symbol = ''XAUUSD'', Timeframe = ''D1'', StartTime = demo_day, Open = 2650,
                High = 2650, Low = 2650, Close = 2650, Volume = 1\<rparr>\<rparr>"

definition far_tick :: CleanTick where
  "far_tick = demo_tick (demo_day + 110000 * (24 * Hour)) 2660"

definition first_tick :: CleanTick where
  "first_tick = demo_tick (demo_day + 10 * Hour + 15 * Second) 2650"

definition late_tick :: CleanTick where
  "late_tick = demo_tick (demo_day + 10 * Hour + 3 * Minute + 10 * Second) 2660"

definition gap_ticks :: "CleanTick list" where
  "gap_ticks = [first_tick, late_tick]"

section \<open>The shape of an event sequence\<close>

text \<open>
  A reader of the events of one machine with period \<open>P\<close> is in one of four phases: no
  event seen yet; inside the block of a bar, after an \<open>UPDATE\<close> (the bar as last
  reported); inside the run of flat bars that follows a bar not yet closed (that bar, and
  the start of the last flat bar); after the \<open>CLOSE\<close> of a block (the largest start time
  seen so far).
\<close>

datatype phase = Idle | InBar Candle | Filling Candle int | Closed int

text \<open>
  \<open>is_fill P b prev c\<close>: the bar \<open>c\<close> is the flat bar that follows the start time \<open>prev\<close>
  in the gap after the bar \<open>b\<close>: one period later, all four prices at the close of \<open>b\<close>,
  volume zero.
\<close>

definition is_fill :: "int \<Rightarrow> Candle \<Rightarrow> int \<Rightarrow> Candle \<Rightarrow> bool" where
  "is_fill P b prev c =
     (StartTime c = prev + P \<and> Symbol c = Symbol b \<and> Timeframe c = Timeframe b \<and>
      Open c = Close b \<and> High c = Close b \<and> Low c = Close b \<and> Close c = Close b \<and>
      Volume c = 0)"

text \<open>
  One event read in a phase.  With \<open>fills = False\<close> this is the form the spec states: a
  block is one or more \<open>UPDATE\<close>s on a bar (same start time), then the \<open>CLOSE\<close> of that
  bar as last reported; the next block starts later; block starts are multiples of \<open>P\<close>.
  With \<open>fills = True\<close> the stand-alone \<open>CLOSE\<close>s of flat bars may stand between the
  \<open>UPDATE\<close>s of a bar and its \<open>CLOSE\<close>, and the next block starts after the last of them.
  \<open>None\<close> means that the event does not fit.
\<close>

fun block_step :: "bool \<Rightarrow> int \<Rightarrow> phase \<Rightarrow> PublishEvent \<Rightarrow> phase option" where
  "block_step fills P Idle ev =
     (if Status ev = ''UPDATE'' \<and> P dvd StartTime (ev_Candle ev)
      then Some (InBar (ev_Candle ev)) else None)"
| "block_step fills P (InBar b) ev =
     (if Status ev = ''UPDATE'' then
        (if StartTime (ev_Candle ev) = StartTime b then Some (InBar (ev_Candle ev)) else None)
      else if Status ev = ''CLOSE'' then
        (if ev_Candle ev = b then Some (Closed (StartTime b))
         else if fills \<and> is_fill P b (StartTime b) (ev_Candle ev)
         then Some (Filling b (StartTime (ev_Candle ev)))
         else None)
      else None)"
| "block_step fills P (Filling b prev) ev =
     (if Status ev = ''CLOSE'' then
        (if ev_Candle ev = b then Some (Closed prev)
         else if fills \<and> is_fill P b prev (ev_Candle ev)
         then Some (Filling b (StartTime (ev_Candle ev)))
         else None)
      else None)"
| "block_step fills P (Closed hi) ev =
     (if Status ev = ''UPDATE'' \<and> hi < StartTime (ev_Candle ev) \<and> P dvd StartTime (ev_Candle ev)
      then Some (InBar (ev_Candle ev)) else None)"

fun block_scan :: "bool \<Rightarrow> int \<Rightarrow> phase \<Rightarrow> PublishEvent list \<Rightarrow> phase option" where
  "block_scan fills P ph [] = Some ph"
| "block_scan fills P ph (ev # evs) =
     (case block_step fills P ph ev of
        None \<Rightarrow> None
      | Some ph' \<Rightarrow> block_scan fills P ph' evs)"

text \<open>The phase in which the events of a machine leave their reader.\<close>

definition phase_of :: "TimeframeAggregator \<Rightarrow> phase" where
  "phase_of t = (case currentCandle t of None \<Rightarrow> Idle | Some c \<Rightarrow> InBar c)"

text \<open>
  What holds of the current bar of a machine in every state it reaches: it starts at a
  multiple of the period and bears the machine's symbol and timeframe name.
\<close>

definition agg_inv :: "TimeframeAggregator \<Rightarrow> bool" where
  "agg_inv t =
     (case currentCandle t of
        None \<Rightarrow> True
      | Some c \<Rightarrow> agg_Timeframe t dvd StartTime c \<and> Symbol c = agg_Symbol t \<and>
                  Timeframe c = TfName t)"

text \<open>
  A tick skips a period when its window starts more than one period after the current
  bar; \<open>no_skips\<close> says that no tick of a sequence does, along the run of the machine.
\<close>

definition skips :: "TimeframeAggregator \<Rightarrow> CleanTick \<Rightarrow> bool" where
  "skips t tick =
     (case currentCandle t of
        None \<Rightarrow> False
      | Some cur \<Rightarrow>
          StartTime cur + agg_Timeframe t < time_Truncate (Timestamp tick) (agg_Timeframe t))"

fun no_skips :: "TimeframeAggregator \<Rightarrow> CleanTick list \<Rightarrow> bool" where
  "no_skips t [] = True"
| "no_skips t (tick # ticks) =
     (\<not> skips t tick \<and>
      (case ProcessTick t tick of Inl p \<Rightarrow> True | Inr (t', evs) \<Rightarrow> no_skips t' ticks))"

text \<open>Ticks at 10:00:15, 10:00:45 and 10:01:05, the first scenario of the spec.\<close>

definition plain_ticks :: "CleanTick list" where
  "plain_ticks =
     [demo_tick (demo_day + 10 * Hour + 15 * Second) 2650,
      demo_tick (demo_day + 10 * Hour + 45 * Second) 2655,
      demo_tick (demo_day + 10 * Hour + 1 * Minute + 5 * Second) 2648]"

section \<open>Indicator engine (package \<^verbatim>\<open>indicators\<close>)\<close>

record BollingerBands =
  Upper :: real
  Middle :: real
  Lower :: real

definition zero_bands :: BollingerBands where
  "zero_bands = \<lparr>Upper = 0, Middle = 0, Lower = 0\<rparr>"

text \<open>\<^verbatim>\<open>func CalculateSMA(prices []float64, period int) float64\<close>\<close>

definition CalculateSMA :: "real list \<Rightarrow> int \<Rightarrow> real" where
  "CalculateSMA prices period =
     (if int (length prices) < period then 0
      else sum_list (take (nat period) prices) / real_of_int period)"

text \<open>\<^verbatim>\<open>func CalculateStdDev(prices []float64, period int, mean float64) float64\<close>\<close>

definition CalculateStdDev :: "real list \<Rightarrow> int \<Rightarrow> real \<Rightarrow> real" where
  "CalculateStdDev prices period mean =
     (if int (length prices) < period then 0
      else
        let variance = sum_list (map (\<lambda>p. (p - mean) * (p - mean)) (take (nat period) prices));
            variance = variance / real_of_int period
        in sqrt variance)"

text \<open>\<^verbatim>\<open>func CalculateBollingerBands(prices []float64, period int, deviation float64) BollingerBands\<close>\<close>

definition CalculateBollingerBands :: "real list \<Rightarrow> int \<Rightarrow> real \<Rightarrow> BollingerBands" where
  "CalculateBollingerBands prices period deviation =
     (if int (length prices) < period then zero_bands
      else
        let middle = CalculateSMA prices period;
            stdDev = CalculateStdDev prices period middle;
            upper = middle + deviation * stdDev;
            lower = middle - deviation * stdDev
        in \<lparr>Upper = upper, Middle = middle, Lower = lower\<rparr>)"

text \<open>
  \<^verbatim>\<open>func CalculateBollingerBandsSeries(prices []float64, period int, deviation float64)\<close>.
  The loop starts at index \<open>period - 1\<close>; for a period that is not positive its first round
  panics (a slice of negative length, or the index \<open>-1\<close>).  The one exception is the least
  \<^verbatim>\<open>int\<close>, where \<open>period - 1\<close> wraps to the greatest one and the loop does not run.  The
  window of index \<open>i\<close> holds the prices from \<open>i\<close> backwards.
\<close>

definition minInt :: int where "minInt = - (2 ^ 63)"

definition bands_window :: "real list \<Rightarrow> int \<Rightarrow> nat \<Rightarrow> real list" where
  "bands_window prices period i = map (\<lambda>j. prices ! (i - j)) [0..<nat period]"

definition CalculateBollingerBandsSeries ::
  "real list \<Rightarrow> int \<Rightarrow> real \<Rightarrow> go_panic + BollingerBands list" where
  "CalculateBollingerBandsSeries prices period deviation =
     (let n = length prices in
      if int n < period then Inr []
      else if period = minInt then Inr (replicate n zero_bands)
      else if period < 0 then Inl MakeSliceOutOfRange
      else if period = 0 then Inl IndexOutOfRange
      else Inr (fold (\<lambda>i result.
                        result[i := CalculateBollingerBands (bands_window prices period i) period deviation])
                  [nat (period - 1)..<n] (replicate n zero_bands)))"

record GreenArrowParams =
  Length :: int
  Deviation :: int
  MoneyRisk :: real
  param_Signal :: int
  Line :: int

record GreenArrowResult =
  UpStop :: real
  DownStop :: real
  UpSignal :: real
  DownSignal :: real
  UpLine :: real
  DownLine :: real
  Trend :: int
  IsSignal :: bool

text \<open>\<^verbatim>\<open>type Candle struct\<close> of the indicator package.\<close>

record ind_Candle =
  ind_Open :: real
  ind_High :: real
  ind_Low :: real
  ind_Close :: real
  ind_Volume :: "64 word"

text \<open>\<^verbatim>\<open>EMPTY_VALUE = math.MaxFloat64\<close>, the largest finite \<^verbatim>\<open>float64\<close>.\<close>

definition EMPTY_VALUE :: real where
  "EMPTY_VALUE = (2 ^ 53 - 1) * 2 ^ 971"

definition empty_result :: GreenArrowResult where
  "empty_result =
     \<lparr>UpStop = -1.0, DownStop = -1.0, UpSignal = -1.0, DownSignal = -1.0,
      UpLine = EMPTY_VALUE, DownLine = EMPTY_VALUE, Trend = 0, IsSignal = False\<rparr>"

text \<open>
  \<^verbatim>\<open>updateUpTrendBuffers\<close> and \<^verbatim>\<open>updateDownTrendBuffers\<close>: the new value of
  \<^verbatim>\<open>results[index]\<close>, given its old value \<open>result\<close> and the whole slice.
\<close>

definition updateUpTrendBuffers ::
  "GreenArrowResult \<Rightarrow> nat \<Rightarrow> real \<Rightarrow> GreenArrowParams \<Rightarrow> GreenArrowResult list \<Rightarrow> GreenArrowResult" where
  "updateUpTrendBuffers result index stopLevel params results =
     (let isNewSignal =
            (if param_Signal params > 0 then
               (if int index = Length params - 1 then True
                else if UpStop (results ! (index - 1)) = -1.0 then True
                else False)
             else False);
          result = result\<lparr>IsSignal := isNewSignal\<rparr>;
          result =
            (if isNewSignal then
               (let result = result\<lparr>UpSignal := stopLevel\<rparr>;
                    result = result\<lparr>UpStop := stopLevel\<rparr>
                in if Line params > 0 then result\<lparr>UpLine := stopLevel\<rparr> else result)
             else
               (let result = result\<lparr>UpStop := stopLevel\<rparr>;
                    result = (if Line params > 0 then result\<lparr>UpLine := stopLevel\<rparr> else result)
                in result\<lparr>UpSignal := -1.0\<rparr>))
      in if param_Signal params = 2 then result\<lparr>UpStop := 0\<rparr> else result)"

definition updateDownTrendBuffers ::
  "GreenArrowResult \<Rightarrow> nat \<Rightarrow> real \<Rightarrow> GreenArrowParams \<Rightarrow> GreenArrowResult list \<Rightarrow> GreenArrowResult" where
  "updateDownTrendBuffers result index stopLevel params results =
     (let isNewSignal =
            (if param_Signal params > 0 then
               (if int index = Length params - 1 then True
                else if DownStop (results ! (index - 1)) = -1.0 then True
                else False)
             else False);
          result = result\<lparr>IsSignal := isNewSignal\<rparr>;
          result =
            (if isNewSignal then
               (let result = result\<lparr>DownSignal := stopLevel\<rparr>;
                    result = result\<lparr>DownStop := stopLevel\<rparr>
                in if Line params > 0 then result\<lparr>DownLine := stopLevel\<rparr> else result)
             else
               (let result = result\<lparr>DownStop := stopLevel\<rparr>;
                    result = (if Line params > 0 then result\<lparr>DownLine := stopLevel\<rparr> else result)
                in result\<lparr>DownSignal := -1.0\<rparr>))
      in if param_Signal params = 2 then result\<lparr>DownStop := 0\<rparr> else result)"

definition clearUpTrendBuffers :: "GreenArrowResult \<Rightarrow> GreenArrowResult" where
  "clearUpTrendBuffers result = result\<lparr>UpSignal := -1.0, UpStop := -1.0, UpLine := EMPTY_VALUE\<rparr>"

definition clearDownTrendBuffers :: "GreenArrowResult \<Rightarrow> GreenArrowResult" where
  "clearDownTrendBuffers result =
     result\<lparr>DownSignal := -1.0, DownStop := -1.0, DownLine := EMPTY_VALUE\<rparr>"

text \<open>\<^verbatim>\<open>func updateBuffers(result *GreenArrowResult, index int, upperStop, lowerStop []float64, trend int, ...)\<close>\<close>

definition updateBuffers ::
  "GreenArrowResult \<Rightarrow> nat \<Rightarrow> real list \<Rightarrow> real list \<Rightarrow> int \<Rightarrow> GreenArrowParams
     \<Rightarrow> GreenArrowResult list \<Rightarrow> GreenArrowResult" where
  "updateBuffers result index upperStop lowerStop trend params results =
     (if trend > 0 then
        clearDownTrendBuffers (updateUpTrendBuffers result index (lowerStop ! index) params results)
      else if trend < 0 then
        clearUpTrendBuffers (updateDownTrendBuffers result index (upperStop ! index) params results)
      else result)"

text \<open>
  The variables of the main loop of \<^verbatim>\<open>CalculateGreenArrow\<close>: the running trend, the four
  work slices (created with zeros) and the result slice.
\<close>

record ga_state =
  trend :: int
  upperBand :: "real list"
  lowerBand :: "real list"
  upperStop :: "real list"
  lowerStop :: "real list"
  results :: "GreenArrowResult list"

text \<open>One round of the main loop, for the index \<open>i\<close>, in the order of the source.\<close>

definition ga_step ::
  "GreenArrowParams \<Rightarrow> real list \<Rightarrow> BollingerBands list \<Rightarrow> nat \<Rightarrow> ga_state \<Rightarrow> ga_state" where
  "ga_step params closes bbSeries i s =
     (let ub = (upperBand s)[i := Upper (bbSeries ! i)];
          lb = (lowerBand s)[i := Lower (bbSeries ! i)];
          tr = trend s;
          tr = (if i > 0 \<and> closes ! i > ub ! (i - 1) then 1 else tr);
          tr = (if i > 0 \<and> closes ! i < lb ! (i - 1) then - 1 else tr);
          lb = (if i > 0 \<and> tr > 0 \<and> lb ! i < lb ! (i - 1) then lb[i := lb ! (i - 1)] else lb);
          ub = (if i > 0 \<and> tr < 0 \<and> ub ! i > ub ! (i - 1) then ub[i := ub ! (i - 1)] else ub);
          bandWidth = ub ! i - lb ! i;
          riskFactor = (MoneyRisk params - 1.0) / 2.0;
          us = (upperStop s)[i := ub ! i + riskFactor * bandWidth];
          ls = (lowerStop s)[i := lb ! i - riskFactor * bandWidth];
          ls = (if i > 0 \<and> tr > 0 \<and> ls ! i < ls ! (i - 1) then ls[i := ls ! (i - 1)] else ls);
          us = (if i > 0 \<and> tr < 0 \<and> us ! i > us ! (i - 1) then us[i := us ! (i - 1)] else us);
          rs = (results s)[i := (results s ! i)\<lparr>Trend := tr\<rparr>];
          rs = rs[i := updateBuffers (rs ! i) i us ls tr params rs]
      in \<lparr>trend = tr, upperBand = ub, lowerBand = lb, upperStop = us, lowerStop = ls,
          results = rs\<rparr>)"

definition ga_init :: "nat \<Rightarrow> ga_state" where
  "ga_init n =
     \<lparr>trend = 0, upperBand = replicate n 0, lowerBand = replicate n 0, upperStop = replicate n 0,
      lowerStop = replicate n 0, results = replicate n empty_result\<rparr>"

text \<open>
  \<^verbatim>\<open>func CalculateGreenArrow(candles []Candle, params GreenArrowParams) []GreenArrowResult\<close>:
  the results, or the panic of the band series for a length that is not positive.  For the
  least \<^verbatim>\<open>int\<close> the start index \<open>Length - 1\<close> wraps and the main loop does not run.
\<close>

definition CalculateGreenArrow ::
  "ind_Candle list \<Rightarrow> GreenArrowParams \<Rightarrow> go_panic + GreenArrowResult list" where
  "CalculateGreenArrow cs params =
     (let n = length cs in
      if int n < Length params then Inr []
      else
        let closes = map ind_Close cs in
        case CalculateBollingerBandsSeries closes (Length params) (real_of_int (Deviation params)) of
          Inl p \<Rightarrow> Inl p
        | Inr bbSeries \<Rightarrow>
            Inr (results (fold (ga_step params closes bbSeries)
                            (if Length params = minInt then [] else [nat (Length params - 1)..<n])
                            (ga_init n))))"

text \<open>The default parameters of \<^verbatim>\<open>NewIndicatorCalculator\<close>: L = 8, D = 1, M = 1.0, S = 1, Ln = 1.\<close>

definition default_params :: GreenArrowParams where
  "default_params = \<lparr>Length = 8, Deviation = 1, MoneyRisk = 1.0, param_Signal = 1, Line = 1\<rparr>"

text \<open>
  The bar sequence of the spec's scenario: twenty bars, the first ten closing at 100, the
  last ten stepping up by 1 to 110.
\<close>

definition flat_bar :: "real \<Rightarrow> ind_Candle" where
  "flat_bar p = \<lparr>ind_Open = p, ind_High = p, ind_Low = p, ind_Close = p, ind_Volume = 0\<rparr>"

definition scenario_closes :: "real list" where
  "scenario_closes =
     [100, 100, 100, 100, 100, 100, 100, 100, 100, 100,
      101, 102, 103, 104, 105, 106, 107, 108, 109, 110]"

definition scenario_bars :: "ind_Candle list" where
  "scenario_bars = map flat_bar scenario_closes"

text \<open>
  The spec's words for the bands: for an index from \<open>L - 1\<close> on, the upper band is the mean of
  the last \<open>L\<close> closes plus \<open>D\<close> times their population standard deviation.  Below \<open>L - 1\<close>
  there is no band.
\<close>

definition spec_ub :: "real list \<Rightarrow> nat \<Rightarrow> real \<Rightarrow> nat \<Rightarrow> real option" where
  "spec_ub c L D i =
     (if L = 0 \<or> i + 1 < L then None
      else
        let w = map (\<lambda>j. c ! j) [i + 1 - L..<i + 1];
            mid = sum_list w / real L;
            sd = sqrt (sum_list (map (\<lambda>x. (x - mid)\<^sup>2) w) / real L)
        in Some (mid + D * sd))"

definition ga_results :: "go_panic + GreenArrowResult list \<Rightarrow> GreenArrowResult list" where
  "ga_results r = (case r of Inl p \<Rightarrow> [] | Inr rs \<Rightarrow> rs)"

text \<open>The sample the engine computes for bar 7 of the scenario.\<close>

definition first_signal :: GreenArrowResult where
  "first_signal =
     \<lparr>UpStop = 100, DownStop = -1, UpSignal = 100, DownSignal = -1, UpLine = 100,
      DownLine = EMPTY_VALUE, Trend = 1, IsSignal = True\<rparr>"

text \<open>
  What holds of the loop variables after the round for an index \<open>i \<ge> 7\<close> of the scenario.
\<close>

definition uptrend_inv :: "nat \<Rightarrow> ga_state \<Rightarrow> bool" where
  "uptrend_inv i s =
     (trend s = 1 \<and> length (upperBand s) = 20 \<and> length (lowerBand s) = 20 \<and>
      length (upperStop s) = 20 \<and> length (lowerStop s) = 20 \<and> length (results s) = 20 \<and>
      lowerBand s ! i \<le> scenario_closes ! i \<and> 100 \<le> lowerStop s ! i \<and>
      UpStop (results s ! i) = lowerStop s ! i \<and>
      results s ! 7 = first_signal \<and>
      (\<forall>j<7. results s ! j = empty_result) \<and>
      (\<forall>j. 7 < j \<and> j \<le> i \<longrightarrow> Trend (results s ! j) = 1 \<and> \<not> IsSignal (results s ! j)))"

section \<open>Buffer manager (\<^verbatim>\<open>CandleBuffer\<close>, \<^verbatim>\<open>MultiPeriodManager\<close>)\<close>

record CandleData =
  cd_Time :: int
  cd_Open :: real
  cd_High :: real
  cd_Low :: real
  cd_Close :: real
  cd_Volume :: "64 word"

text \<open>
  \<^verbatim>\<open>type CandleBuffer struct\<close>.  The capacity is a natural number: \<^verbatim>\<open>NewCandleBuffer\<close>
  passes it to \<^verbatim>\<open>make\<close>, which panics for a negative one, so no buffer exists with a
  negative \<^verbatim>\<open>maxSize\<close>.
\<close>

record CandleBuffer =
  candles :: "CandleData list"
  maxSize :: nat

definition NewCandleBuffer :: "nat \<Rightarrow> CandleBuffer" where
  "NewCandleBuffer n = \<lparr>candles = [], maxSize = n\<rparr>"

text \<open>\<^verbatim>\<open>func (cb *CandleBuffer) Add(candle CandleData)\<close>: append, then drop the oldest bar when over capacity.\<close>

definition Add :: "CandleBuffer \<Rightarrow> CandleData \<Rightarrow> CandleBuffer" where
  "Add cb candle =
     (let cs = candles cb @ [candle]
      in cb\<lparr>candles := (if length cs > maxSize cb then tl cs else cs)\<rparr>)"

text \<open>\<^verbatim>\<open>func (cb *CandleBuffer) Update(candle CandleData)\<close>: overwrite the newest bar, or append to an empty buffer.\<close>

definition Update :: "CandleBuffer \<Rightarrow> CandleData \<Rightarrow> CandleBuffer" where
  "Update cb candle =
     (if length (candles cb) > 0
      then cb\<lparr>candles := (candles cb)[length (candles cb) - 1 := candle]\<rparr>
      else cb\<lparr>candles := candles cb @ [candle]\<rparr>)"

text \<open>\<^verbatim>\<open>GetAll\<close> returns a copy of the slice, \<^verbatim>\<open>Size\<close> its length.\<close>

definition GetAll :: "CandleBuffer \<Rightarrow> CandleData list" where
  "GetAll cb = candles cb"

definition Size :: "CandleBuffer \<Rightarrow> nat" where
  "Size cb = length (candles cb)"

text \<open>
  The time-series store as the manager sees it: for a symbol and a timeframe the rows of
  \<^verbatim>\<open>klines\<close>, newest first (\<^verbatim>\<open>ORDER BY start_time DESC\<close>), or \<open>None\<close> when the query
  fails.  The \<^verbatim>\<open>LIMIT\<close> of the query is applied by \<^verbatim>\<open>loadFromDB\<close> below.
\<close>

type_synonym history = "string \<Rightarrow> string \<Rightarrow> CandleData list option"

text \<open>
  \<^verbatim>\<open>type MultiPeriodManager struct\<close>; the calculator is given by its parameters, \<open>mpm_db\<close>
  is \<open>None\<close> for a nil handle.
\<close>

record MultiPeriodManager =
  buffers :: "string \<rightharpoonup> CandleBuffer"
  calculator :: GreenArrowParams
  mpm_maxSize :: nat
  mpm_db :: "history option"

definition NewMultiPeriodManager :: "nat \<Rightarrow> history option \<Rightarrow> MultiPeriodManager" where
  "NewMultiPeriodManager n d =
     \<lparr>buffers = Map.empty, calculator = default_params, mpm_maxSize = n, mpm_db = d\<rparr>"

text \<open>
  Splitting at every colon: \<^verbatim>\<open>strings.Split(key, ":")\<close> in \<^verbatim>\<open>loadFromDB\<close> and the loop
  of \<^verbatim>\<open>splitChannel\<close> in the hub.  The first argument is the part read so far.
\<close>

fun split_colon :: "string \<Rightarrow> string \<Rightarrow> string list" where
  "split_colon cur [] = [cur]"
| "split_colon cur (c # cs) =
     (if c = CHR '':'' then cur # split_colon [] cs else split_colon (cur @ [c]) cs)"

definition splitChannel :: "string \<Rightarrow> string list" where
  "splitChannel channel = split_colon [] channel"

text \<open>
  The loop of \<^verbatim>\<open>loadFromDB\<close> over the rows, oldest first, with the time of the last bar
  kept (\<open>lastTime\<close>, the zero time at the start) and the bars kept so far.  A row is skipped
  when its prices are inconsistent or when its time is not after the last kept one.
\<close>

fun load_rows :: "CandleData list \<Rightarrow> int \<Rightarrow> CandleData list \<Rightarrow> CandleData list" where
  "load_rows [] lastTime kept = kept"
| "load_rows (c # rest) lastTime kept =
     (if cd_High c < cd_Low c then load_rows rest lastTime kept
      else if cd_High c < cd_Open c \<or> cd_High c < cd_Close c then load_rows rest lastTime kept
      else if cd_Low c > cd_Open c \<or> cd_Low c > cd_Close c then load_rows rest lastTime kept
      else if lastTime \<noteq> 0 \<and> \<not> cd_Time c > lastTime then load_rows rest lastTime kept
      else load_rows rest (cd_Time c) (kept @ [c]))"

text \<open>\<^verbatim>\<open>func (m *MultiPeriodManager) loadFromDB(key string, buffer *CandleBuffer)\<close>\<close>

definition loadFromDB :: "MultiPeriodManager \<Rightarrow> string \<Rightarrow> CandleBuffer \<Rightarrow> CandleBuffer" where
  "loadFromDB m key buffer =
     (let parts = split_colon [] key in
      if length parts \<noteq> 2 then buffer
      else
        case mpm_db m of
          None \<Rightarrow> buffer
        | Some query \<Rightarrow>
            (case query (parts ! 0) (parts ! 1) of
               None \<Rightarrow> buffer
             | Some rows \<Rightarrow>
                 buffer\<lparr>candles := load_rows (rev (take (mpm_maxSize m) rows)) 0 []\<rparr>))"

text \<open>
  \<^verbatim>\<open>func (m *MultiPeriodManager) GetOrCreateBuffer(key string) *CandleBuffer\<close>: the
  manager with the buffer in its map, and the buffer.
\<close>

definition GetOrCreateBuffer :: "MultiPeriodManager \<Rightarrow> string \<Rightarrow> MultiPeriodManager \<times> CandleBuffer" where
  "GetOrCreateBuffer m key =
     (case buffers m key of
        Some buffer \<Rightarrow> (m, buffer)
      | None \<Rightarrow>
          let buffer = NewCandleBuffer (mpm_maxSize m);
              buffer = (if mpm_db m \<noteq> None then loadFromDB m key buffer else buffer)
          in (m\<lparr>buffers := (buffers m)(key \<mapsto> buffer)\<rparr>, buffer))"

text \<open>
  \<^verbatim>\<open>func (m *MultiPeriodManager) AddCandle(key string, candle CandleData, isNew bool)\<close>.
  The buffer is an object in the map; \<^verbatim>\<open>Add\<close> and \<^verbatim>\<open>Update\<close> change it in place.
\<close>

definition AddCandle :: "MultiPeriodManager \<Rightarrow> string \<Rightarrow> CandleData \<Rightarrow> bool \<Rightarrow> MultiPeriodManager" where
  "AddCandle m key candle isNew =
     (let (m', buffer) = GetOrCreateBuffer m key in
      if cd_High candle < cd_Low candle then m'
      else if cd_High candle < cd_Open candle \<or> cd_High candle < cd_Close candle then m'
      else if cd_Low candle > cd_Open candle \<or> cd_Low candle > cd_Close candle then m'
      else if isNew then m'\<lparr>buffers := (buffers m')(key \<mapsto> Add buffer candle)\<rparr>
      else m'\<lparr>buffers := (buffers m')(key \<mapsto> Update buffer candle)\<rparr>)"

text \<open>\<^verbatim>\<open>func (m *MultiPeriodManager) GetCandles(key string) []CandleData\<close>\<close>

definition GetCandles :: "MultiPeriodManager \<Rightarrow> string \<Rightarrow> CandleData list" where
  "GetCandles m key = (case buffers m key of None \<Rightarrow> [] | Some buffer \<Rightarrow> GetAll buffer)"

text \<open>
  \<^verbatim>\<open>IndicatorCalculator.Calculate\<close> and \<^verbatim>\<open>MultiPeriodManager.CalculateIndicators\<close>.
\<close>

definition Calculate :: "GreenArrowParams \<Rightarrow> CandleData list \<Rightarrow> go_panic + GreenArrowResult list" where
  "Calculate params cs =
     (if length cs = 0 then Inr []
      else CalculateGreenArrow
             (map (\<lambda>c. \<lparr>ind_Open = cd_Open c, ind_High = cd_High c, ind_Low = cd_Low c,
                         ind_Close = cd_Close c, ind_Volume = cd_Volume c\<rparr>) cs) params)"

definition CalculateIndicators :: "MultiPeriodManager \<Rightarrow> string \<Rightarrow> go_panic + GreenArrowResult list" where
  "CalculateIndicators m key = Calculate (calculator m) (GetCandles m key)"

section \<open>Hub (\<^verbatim>\<open>Hub\<close>, \<^verbatim>\<open>Client\<close>)\<close>

text \<open>
  \<^verbatim>\<open>type SnapshotMessage struct\<close>.  A payload on a client's queue is the JSON text of such
  a message; it is identified with the message.
\<close>

record SnapshotMessage =
  msg_Type :: string
  msg_Symbol :: string
  msg_Timeframe :: string
  msg_Data :: "CandleData list"

text \<open>
  A client, as the hub sees it: the outbound queue \<^verbatim>\<open>Send\<close>, a channel created with a
  fixed capacity (256 in the controller), and the client's own list of channels.
\<close>

record Client =
  Send :: "SnapshotMessage list"
  send_cap :: nat
  client_Subscriptions :: "string set"

text \<open>
  \<^verbatim>\<open>type Hub struct\<close>.  Clients are objects referred to by pointer; \<open>client_at\<close> is the
  store that holds them, and the sets of the hub hold their addresses.
\<close>

record Hub =
  Clients :: "nat set"
  Subscriptions :: "string \<rightharpoonup> nat set"
  indicatorManager :: MultiPeriodManager
  client_at :: "nat \<Rightarrow> Client"

text \<open>
  The non-blocking send \<^verbatim>\<open>select { case client.Send <- payload: ... default: ... }\<close>:
  the payload is queued when the queue has room and dropped otherwise.
\<close>

definition try_send :: "Client \<Rightarrow> SnapshotMessage \<Rightarrow> Client" where
  "try_send c payload =
     (if length (Send c) < send_cap c then c\<lparr>Send := Send c @ [payload]\<rparr> else c)"

text \<open>\<^verbatim>\<open>func (h *Hub) sendSnapshot(client *Client, channel string)\<close>\<close>

definition sendSnapshot :: "Hub \<Rightarrow> nat \<Rightarrow> string \<Rightarrow> Hub" where
  "sendSnapshot h client channel =
     (let parts = splitChannel channel in
      if length parts \<noteq> 3 \<or> parts ! 0 \<noteq> ''kline'' then h
      else
        let symbol = parts ! 1;
            timeframe = parts ! 2;
            key = symbol @ '':'' @ timeframe;
            cs = GetCandles (indicatorManager h) key
        in if length cs = 0 then h
           else
             let snapshot = \<lparr>msg_Type = ''snapshot'', msg_Symbol = symbol,
                             msg_Timeframe = timeframe, msg_Data = cs\<rparr>
             in h\<lparr>client_at := (client_at h)(client := try_send (client_at h client) snapshot)\<rparr>)"

text \<open>
  \<^verbatim>\<open>func (h *Hub) Subscribe(client *Client, channel string)\<close>: the client joins the set of
  the channel; then the function starts \<^verbatim>\<open>sendSnapshot\<close> as a goroutine.  \<open>Subscribe\<close> is
  the part under the lock; \<open>Subscribe_snapshot\<close> lets the goroutine run at once.
\<close>

definition Subscribe :: "Hub \<Rightarrow> nat \<Rightarrow> string \<Rightarrow> Hub" where
  "Subscribe h client channel =
     h\<lparr>Subscriptions :=
         (Subscriptions h)(channel \<mapsto>
            insert client (case Subscriptions h channel of None \<Rightarrow> {} | Some cl \<Rightarrow> cl))\<rparr>"

definition Subscribe_snapshot :: "Hub \<Rightarrow> nat \<Rightarrow> string \<Rightarrow> Hub" where
  "Subscribe_snapshot h client channel = sendSnapshot (Subscribe h client channel) client channel"

text \<open>\<^verbatim>\<open>func (cm *ClientMessage) ToChannelName() (string, error)\<close>, for a complete message.\<close>

definition ToChannelName :: "string \<Rightarrow> string \<Rightarrow> string option" where
  "ToChannelName symbol timeframe =
     (if symbol = [] \<or> timeframe = [] then None
      else Some (''kline:'' @ symbol @ '':'' @ timeframe))"

text \<open>
  The step of \<^verbatim>\<open>handleKlineMessage\<close> that feeds a bar event of the aggregator to the buffer:
  \<^verbatim>\<open>isNew\<close> is \<^verbatim>\<open>status == "CLOSE"\<close>, the key is symbol, colon, timeframe.
\<close>

definition buffer_event :: "MultiPeriodManager \<Rightarrow> PublishEvent \<Rightarrow> MultiPeriodManager" where
  "buffer_event m ev =
     (let c = ev_Candle ev;
          isNew = (Status ev = ''CLOSE'');
          key = Symbol c @ '':'' @ Timeframe c;
          candle = \<lparr>cd_Time = StartTime c, cd_Open = Open c, cd_High = High c, cd_Low = Low c,
                    cd_Close = Close c, cd_Volume = Volume c\<rparr>
      in AddCandle m key candle isNew)"

text \<open>Bars strictly ordered by start time, the order the spec asks of a buffer.\<close>

definition strictly_ordered :: "CandleData list \<Rightarrow> bool" where
  "strictly_ordered cs = sorted_wrt (<) (map cd_Time cs)"

text \<open>Sample inputs: a hub with capacity 500 and no store, a valid bar, two clients.\<close>

definition demo_mpm :: MultiPeriodManager where
  "demo_mpm = NewMultiPeriodManager 500 None"

definition demo_candle :: "int \<Rightarrow> CandleData" where
  "demo_candle t = \<lparr>cd_Time = t, cd_Open = 2650, cd_High = 2655, cd_Low = 2650, cd_Close = 2655,
                    cd_Volume = 2\<rparr>"

definition idle_client :: Client where
  "idle_client = \<lparr>Send = [], send_cap = 256, client_Subscriptions = {}\<rparr>"

definition busy_client :: Client where
  "busy_client =
     \<lparr>Send = replicate 256 \<lparr>msg_Type = ''snapshot'', msg_Symbol = ''EURUSD'', msg_Timeframe = ''M5'',
                              msg_Data = []\<rparr>,
      send_cap = 256, client_Subscriptions = {''kline:EURUSD:M5''}\<rparr>"

definition demo_hub :: Hub where
  "demo_hub =
     \<lparr>Clients = {1, 2}, Subscriptions = Map.empty,
      indicatorManager = AddCandle (AddCandle demo_mpm ''XAUUSD:M1'' (demo_candle 60) True)
                           ''XAUUSD:M1'' (demo_candle 120) True,
      client_at = (\<lambda>a. if a = 2 then busy_client else idle_client)\<rparr>"

text \<open>
  Every buffer of a manager holds at most as many bars as the manager's capacity, which is
  also the buffer's own.
\<close>

definition sized :: "MultiPeriodManager \<Rightarrow> bool" where
  "sized m = (\<forall>k b. buffers m k = Some b \<longrightarrow>
                 length (candles b) \<le> mpm_maxSize m \<and> maxSize b = mpm_maxSize m)"


section \<open>Properties of the lot sizing\<close>

lemma abs_f_abs: "abs_f x = \<bar>x\<bar>"
  by (simp add: abs_f_def)

lemma spec_clamp_range: "0.01 \<le> spec_clamp x 0.01 10.0 \<and> spec_clamp x 0.01 10.0 \<le> 10"
  by (simp add: spec_clamp_def)

lemma roundLots_near:
  assumes "0.01 \<le> x" "x \<le> 10"
  shows "\<exists>k::int. roundLots x = real_of_int k / 100 \<and> 1 \<le> k \<and> k \<le> 1000 \<and>
           \<bar>roundLots x - x\<bar> \<le> 0.005"
proof -
  define k where "k = \<lfloor>x * 100 + 0.5\<rfloor>"
  have pos: "0 \<le> x * 100 + 0.5" using assms by simp
  have gi: "go_int (x * 100 + 0.5) = k" using pos by (simp add: go_int_def k_def)
  have lo: "1 \<le> k" using assms by (simp add: le_floor_iff k_def)
  have hi: "k \<le> 1000" using assms by (simp add: floor_le_iff k_def)
  have f1: "real_of_int k \<le> x * 100 + 0.5" unfolding k_def by (rule of_int_floor_le)
  have f2: "x * 100 + 0.5 < real_of_int k + 1" unfolding k_def by linarith
  have a: "real_of_int k / 100 - x \<le> 0.005" using f1 by simp
  have b: "x - real_of_int k / 100 \<le> 0.005" using f2 by simp
  have "\<bar>real_of_int k / 100 - x\<bar> \<le> 0.005" unfolding abs_le_iff using a b by linarith
  then show ?thesis using gi lo hi by (auto simp: roundLots_def)
qed

lemma clamp_ifs:
  "(if 10.0 < (if x < 0.01 then 0.01 else x) then 10.0 else (if x < 0.01 then 0.01 else x))
     = spec_clamp x 0.01 (10.0::real)"
  by (simp add: spec_clamp_def max_def min_def)

lemma CalculateLots_unfold:
  "CalculateLots b rp e s = (if \<bar>e - s\<bar> = 0 then 0.01 else roundLots (spec_lots b rp e s))"
  unfolding CalculateLots_def spec_lots_def Let_def abs_f_abs clamp_ifs
  by simp

lemma CalculateLots_lower: "0.01 \<le> CalculateLots b rp e s"
proof (cases "\<bar>e - s\<bar> = 0")
  case True
  then show ?thesis by (simp add: CalculateLots_unfold)
next
  case False
  have r: "0.01 \<le> spec_lots b rp e s" "spec_lots b rp e s \<le> 10"
    using spec_clamp_range by (simp_all add: spec_lots_def Let_def)
  from roundLots_near[OF r] obtain k :: int where
    k: "roundLots (spec_lots b rp e s) = real_of_int k / 100" "1 \<le> k" by blast
  have "0.01 \<le> real_of_int k / 100" using k(2) by simp
  then show ?thesis using False k(1) by (simp add: CalculateLots_unfold)
qed

text \<open>
  Claim C9.  For all balances, risk percentages, entry and stop prices: when the entry
  equals the stop the function returns 0.01; otherwise it returns a whole number of
  hundredths that is within half a hundredth of the clamped quotient
  \<open>clamp(riskAmount / (|entry - stop| * 10), 0.01, 10)\<close>, that is, the quotient rounded to
  two decimals; and in both cases the result lies between 0.01 and 10.
\<close>

theorem CalculateLots_clamped_rounded:
  "(\<bar>entry - stop\<bar> = 0 \<longrightarrow> CalculateLots balance rp entry stop = 0.01) \<and>
   (\<bar>entry - stop\<bar> \<noteq> 0 \<longrightarrow>
      (\<exists>k::int. CalculateLots balance rp entry stop = real_of_int k / 100) \<and>
      \<bar>CalculateLots balance rp entry stop - spec_lots balance rp entry stop\<bar> \<le> 0.005) \<and>
   0.01 \<le> CalculateLots balance rp entry stop \<and> CalculateLots balance rp entry stop \<le> 10.0"
proof (cases "\<bar>entry - stop\<bar> = 0")
  case True
  then show ?thesis by (simp add: CalculateLots_unfold)
next
  case False
  have r: "0.01 \<le> spec_lots balance rp entry stop" "spec_lots balance rp entry stop \<le> 10"
    using spec_clamp_range by (simp_all add: spec_lots_def Let_def)
  from roundLots_near[OF r] obtain k :: int where
    k: "roundLots (spec_lots balance rp entry stop) = real_of_int k / 100" "1 \<le> k" "k \<le> 1000"
       "\<bar>roundLots (spec_lots balance rp entry stop) - spec_lots balance rp entry stop\<bar> \<le> 0.005"
    by blast
  have "0.01 \<le> real_of_int k / 100" using k(2) by simp
  moreover have "real_of_int k / 100 \<le> 10" using k(3) by simp
  ultimately show ?thesis using False k by (auto simp: CalculateLots_unfold)
qed

theorem CalculateLots_clamped_rounded_witness:
  "\<bar>2650 - 2640 :: real\<bar> \<noteq> 0 \<and> CalculateLots 10000 1 2650 2640 = 1 \<and>
   \<bar>CalculateLots 10000 1 2650 2640 - spec_lots 10000 1 2650 2640\<bar> \<le> 0.005 \<and>
   \<bar>2650 - 2650 :: real\<bar> = 0 \<and> CalculateLots 10000 1 2650 2650 = 0.01"
  using CalculateLots_clamped_rounded[of 2650 2640 10000 1]
        CalculateLots_clamped_rounded[of 2650 2650 10000 1]
  by (simp add: CalculateLots_def abs_f_def roundLots_def go_int_def Let_def)

section \<open>Properties of the trade manager\<close>

text \<open>
  What one call of \<open>ExecuteTrade\<close> does, for any request.
\<close>

lemma ExecuteTrade_effect:
  assumes "ExecuteTrade tm req newid now = (tm', resp)"
  shows "(Success resp \<longrightarrow>
            (\<exists>u u' p. users tm (req_UserID req) = Some u \<and> users tm' (req_UserID req) = Some u' \<and>
               FreeMargin u' = FreeMargin u - req_Lots req * 1000 \<and>
               Margin u' = Margin u + req_Lots req * 1000 \<and>
               (FreeMargin u' - FreeMargin u) + (Margin u' - Margin u) = 0 \<and>
               (0 < req_Lots req \<longrightarrow> 0 < Margin u' - Margin u) \<and>
               Balance u' = Balance u \<and> Equity u' = Equity u \<and>
               (\<forall>k. k \<noteq> req_UserID req \<longrightarrow> users tm' k = users tm k) \<and>
               (\<forall>k. k \<noteq> newid \<longrightarrow> positions tm' k = positions tm k) \<and>
               positions tm' newid = Some p \<and> pos_PositionID p = newid \<and>
               resp_PositionID resp = newid \<and> pos_UserID p = req_UserID req \<and>
               pos_Lots p = req_Lots req \<and> pos_Status p = ''OPEN'' \<and>
               (newid \<notin> dom (positions tm) \<longrightarrow>
                  dom (positions tm') - dom (positions tm) = {newid}))) \<and>
         (\<not> Success resp \<longrightarrow> tm' = tm \<and>
            (users tm (req_UserID req) = None \<or>
             (\<exists>u. users tm (req_UserID req) = Some u \<and> FreeMargin u < req_Lots req * 1000)))"
proof (cases "users tm (req_UserID req)")
  case None
  then show ?thesis using assms by (auto simp: ExecuteTrade_def)
next
  case (Some u)
  show ?thesis
  proof (cases "FreeMargin u < req_Lots req * 1000")
    case True
    then show ?thesis using assms Some by (auto simp: ExecuteTrade_def Let_def)
  next
    case False
    then show ?thesis using assms Some by (auto simp: ExecuteTrade_def Let_def)
  qed
qed

text \<open>
  Claim C6.  Every request the program submits carries the lots computed by the sizing
  function: \<open>executeSignal\<close> builds it with \<open>CalculateLots\<close>, and the older instance type
  sizes with the same formula.  For every such call of \<open>ExecuteTrade\<close>: if it returns
  success, the user's free margin has fallen by exactly \<open>lots * 1000\<close> and the margin has
  risen by exactly \<open>lots * 1000\<close>, so the two changes add to zero and the rise is
  \<open>lots * 1000 > 0\<close>; balance, equity and all other users are untouched; and exactly one
  position is stored, the new one, under the identifier drawn for it, every other entry of
  the map staying as it was (an identifier not yet in the map adds exactly one key).  If it
  returns failure, the user is unknown or the free margin is below \<open>lots * 1000\<close>, and
  neither an account nor a position has changed.
\<close>

theorem ExecuteTrade_margin_conservation:
  assumes call: "ExecuteTrade tm req newid now = (tm', resp)"
      and sizing: "req_Lots req = CalculateLots balance rp entry stop"
  shows "(Success resp \<longrightarrow>
            (\<exists>u u' p. users tm (req_UserID req) = Some u \<and> users tm' (req_UserID req) = Some u' \<and>
               FreeMargin u' = FreeMargin u - req_Lots req * 1000 \<and>
               Margin u' = Margin u + req_Lots req * 1000 \<and>
               (FreeMargin u' - FreeMargin u) + (Margin u' - Margin u) = 0 \<and>
               Margin u' - Margin u = req_Lots req * 1000 \<and>
               0 < Margin u' - Margin u \<and>
               Balance u' = Balance u \<and> Equity u' = Equity u \<and>
               (\<forall>k. k \<noteq> req_UserID req \<longrightarrow> users tm' k = users tm k) \<and>
               (\<forall>k. k \<noteq> newid \<longrightarrow> positions tm' k = positions tm k) \<and>
               positions tm' newid = Some p \<and> pos_PositionID p = newid \<and>
               resp_PositionID resp = newid \<and> pos_UserID p = req_UserID req \<and>
               pos_Lots p = req_Lots req \<and> pos_Status p = ''OPEN'' \<and>
               (newid \<notin> dom (positions tm) \<longrightarrow>
                  dom (positions tm') - dom (positions tm) = {newid}))) \<and>
         (\<not> Success resp \<longrightarrow> tm' = tm \<and>
            (users tm (req_UserID req) = None \<or>
             (\<exists>u. users tm (req_UserID req) = Some u \<and> FreeMargin u < req_Lots req * 1000)))"
proof -
  have "0.01 \<le> req_Lots req" unfolding sizing by (rule CalculateLots_lower)
  then have pos: "0 < req_Lots req" by simp
  note effect = ExecuteTrade_effect[OF call]
  have fail: "\<not> Success resp \<longrightarrow> tm' = tm \<and>
            (users tm (req_UserID req) = None \<or>
             (\<exists>u. users tm (req_UserID req) = Some u \<and> FreeMargin u < req_Lots req * 1000))"
    using effect by blast
  have ok: "\<exists>u u' p. users tm (req_UserID req) = Some u \<and> users tm' (req_UserID req) = Some u' \<and>
               FreeMargin u' = FreeMargin u - req_Lots req * 1000 \<and>
               Margin u' = Margin u + req_Lots req * 1000 \<and>
               (FreeMargin u' - FreeMargin u) + (Margin u' - Margin u) = 0 \<and>
               Margin u' - Margin u = req_Lots req * 1000 \<and>
               0 < Margin u' - Margin u \<and>
               Balance u' = Balance u \<and> Equity u' = Equity u \<and>
               (\<forall>k. k \<noteq> req_UserID req \<longrightarrow> users tm' k = users tm k) \<and>
               (\<forall>k. k \<noteq> newid \<longrightarrow> positions tm' k = positions tm k) \<and>
               positions tm' newid = Some p \<and> pos_PositionID p = newid \<and>
               resp_PositionID resp = newid \<and> pos_UserID p = req_UserID req \<and>
               pos_Lots p = req_Lots req \<and> pos_Status p = ''OPEN'' \<and>
               (newid \<notin> dom (positions tm) \<longrightarrow>
                  dom (positions tm') - dom (positions tm) = {newid})"
    if s: "Success resp"
  proof -
    from effect s obtain u u' p where
      e: "users tm (req_UserID req) = Some u" "users tm' (req_UserID req) = Some u'"
         "FreeMargin u' = FreeMargin u - req_Lots req * 1000"
         "Margin u' = Margin u + req_Lots req * 1000"
         "Balance u' = Balance u" "Equity u' = Equity u"
         "\<forall>k. k \<noteq> req_UserID req \<longrightarrow> users tm' k = users tm k"
         "\<forall>k. k \<noteq> newid \<longrightarrow> positions tm' k = positions tm k"
         "positions tm' newid = Some p" "pos_PositionID p = newid"
         "resp_PositionID resp = newid" "pos_UserID p = req_UserID req"
         "pos_Lots p = req_Lots req" "pos_Status p = ''OPEN''"
         "newid \<notin> dom (positions tm) \<longrightarrow> dom (positions tm') - dom (positions tm) = {newid}"
      by blast
    have rise: "Margin u' - Margin u = req_Lots req * 1000" using e(4) by simp
    have up: "0 < Margin u' - Margin u" unfolding rise using pos by simp
    have zero: "(FreeMargin u' - FreeMargin u) + (Margin u' - Margin u) = 0" using e(3,4) by simp
    show ?thesis
      using e rise up zero by blast
  qed
  show ?thesis using ok fail by blast
qed

theorem ExecuteTrade_margin_conservation_witness:
  "req_Lots (demo_req 1) = CalculateLots 10000 1 2650 2640 \<and>
   Success (snd (ExecuteTrade demo_tm (demo_req 1) ''p1'' 5)) \<and>
   map_option FreeMargin (users (fst (ExecuteTrade demo_tm (demo_req 1) ''p1'' 5)) ''7'') = Some 7000 \<and>
   map_option Margin (users (fst (ExecuteTrade demo_tm (demo_req 1) ''p1'' 5)) ''7'') = Some 1000 \<and>
   dom (positions (fst (ExecuteTrade demo_tm (demo_req 1) ''p1'' 5))) = {''p1''} \<and>
   req_Lots (demo_req 9) = CalculateLots 90000 1 2650 2640 \<and>
   \<not> Success (snd (ExecuteTrade demo_tm (demo_req 9) ''p1'' 5)) \<and>
   fst (ExecuteTrade demo_tm (demo_req 9) ''p1'' 5) = demo_tm"
proof -
  have one: "req_Lots (demo_req 1) = CalculateLots 10000 1 2650 2640"
    by (simp add: demo_req_def CalculateLots_def abs_f_def roundLots_def go_int_def Let_def)
  have nine: "req_Lots (demo_req 9) = CalculateLots 90000 1 2650 2640"
    by (simp add: demo_req_def CalculateLots_def abs_f_def roundLots_def go_int_def Let_def)
  show ?thesis
    using ExecuteTrade_margin_conservation[OF surjective_pairing one, of demo_tm "''p1''" 5]
          ExecuteTrade_margin_conservation[OF surjective_pairing nine, of demo_tm "''p1''" 5]
          one nine
    by (simp add: ExecuteTrade_def demo_tm_def demo_req_def demo_user_def RegisterUser_def
          NewTradeManager_def Let_def)
qed

text \<open>
  The same through the call site: a run of \<open>executeSignal\<close> either leaves the trade manager
  as it was (position cap reached, or the trade refused), or moves exactly
  \<open>lots * 1000 > 0\<close> from the user's free margin to the margin.
\<close>

lemma executeSignal_margin:
  assumes run: "executeSignal ea tm signal newid now now' = (ea', tm')"
  shows "tm' = tm \<or>
         (\<exists>u u'. users tm (UserID (ea_user ea)) = Some u \<and> users tm' (UserID (ea_user ea)) = Some u' \<and>
            Margin u' - Margin u =
              CalculateLots (Balance (ea_user ea)) (cfg_RiskPercent (ea_config ea))
                (sig_Price signal) (sig_StopLoss signal) * 1000 \<and>
            0 < Margin u' - Margin u \<and>
            (FreeMargin u' - FreeMargin u) + (Margin u' - Margin u) = 0)"
proof -
  define lots where "lots = CalculateLots (Balance (ea_user ea)) (cfg_RiskPercent (ea_config ea))
                              (sig_Price signal) (sig_StopLoss signal)"
  have "0.01 \<le> lots" unfolding lots_def by (rule CalculateLots_lower)
  then have pos: "0 < lots * 1000" by simp
  show ?thesis
    using run pos unfolding lots_def[symmetric]
    by (auto simp: executeSignal_def ExecuteTrade_def Let_def lots_def[symmetric]
             split: option.splits if_splits)
qed

section \<open>Properties of the strategy instance\<close>

text \<open>
  Claim C10.  Whenever \<open>executeSignal\<close> gets a trade through (the instance is below its
  position cap, the user is registered and funded for the computed lots), the trade manager
  stores the position with open price 0 and the instance stores its copy with open price
  equal to the signal price; the copy differs from the stored record in the open price and
  the open time only.  So the two records of one position disagree on the open price
  whenever the signal price is not zero.
\<close>

theorem executeSignal_open_price_disagrees:
  assumes admitted: "int (card (dom (ea_positions ea))) < cfg_MaxPositions (ea_config ea)"
      and known: "users tm (UserID (ea_user ea)) = Some u"
      and funded: "\<not> FreeMargin u <
                     CalculateLots (Balance (ea_user ea)) (cfg_RiskPercent (ea_config ea))
                       (sig_Price signal) (sig_StopLoss signal) * 1000"
      and run: "executeSignal ea tm signal newid now now' = (ea', tm')"
  shows "\<exists>p q. positions tm' newid = Some p \<and> ea_positions ea' newid = Some q \<and>
           pos_PositionID p = newid \<and> pos_PositionID q = newid \<and>
           pos_OpenPrice p = 0 \<and> pos_OpenPrice q = sig_Price signal \<and>
           q = p\<lparr>pos_OpenPrice := sig_Price signal, pos_OpenTime := now'\<rparr> \<and>
           (sig_Price signal \<noteq> 0 \<longrightarrow> pos_OpenPrice p \<noteq> pos_OpenPrice q)"
  using assms
  by (auto simp: executeSignal_def ExecuteTrade_def Let_def)

theorem executeSignal_open_price_disagrees_witness:
  "map_option pos_OpenPrice
     (positions (snd (executeSignal demo_ea demo_tm demo_signal ''p1'' 5 6)) ''p1'') = Some 0 \<and>
   map_option pos_OpenPrice
     (ea_positions (fst (executeSignal demo_ea demo_tm demo_signal ''p1'' 5 6)) ''p1'') = Some 2650"
proof -
  have a: "int (card (dom (ea_positions demo_ea))) < cfg_MaxPositions (ea_config demo_ea)"
    by (simp add: demo_ea_def demo_cfg_def)
  have k: "users demo_tm (UserID (ea_user demo_ea)) = Some demo_user"
    by (simp add: demo_ea_def demo_tm_def RegisterUser_def NewTradeManager_def demo_user_def)
  have l: "CalculateLots (Balance (ea_user demo_ea)) (cfg_RiskPercent (ea_config demo_ea))
             (sig_Price demo_signal) (sig_StopLoss demo_signal) = 1"
    by (simp add: demo_ea_def demo_cfg_def demo_user_def demo_signal_def CalculateLots_def
          abs_f_def roundLots_def go_int_def Let_def)
  have f: "\<not> FreeMargin demo_user <
             CalculateLots (Balance (ea_user demo_ea)) (cfg_RiskPercent (ea_config demo_ea))
               (sig_Price demo_signal) (sig_StopLoss demo_signal) * 1000"
    unfolding l by (simp add: demo_user_def)
  from executeSignal_open_price_disagrees[where newid = "''p1''" and now = 5 and now' = 6,
         OF a k f surjective_pairing]
  show ?thesis by (auto simp: demo_signal_def)
qed

section \<open>Properties of the writer\<close>

lemma rows_for_absent: "k \<notin> set (map conflict_key db) \<Longrightarrow> rows_for db k = 0"
  by (induction db) (auto simp: rows_for_def)

lemma rows_for_distinct:
  "distinct (map conflict_key db) \<Longrightarrow> k \<in> set (map conflict_key db) \<Longrightarrow> rows_for db k = 1"
proof (induction db)
  case Nil
  then show ?case by simp
next
  case (Cons r db)
  show ?case
  proof (cases "conflict_key r = k")
    case True
    with Cons.prems have "k \<notin> set (map conflict_key db)" by auto
    then have "rows_for db k = 0" by (rule rows_for_absent)
    with True show ?thesis by (simp add: rows_for_def)
  next
    case False
    with Cons show ?thesis by (auto simp: rows_for_def)
  qed
qed

lemma insert_distinct:
  "distinct (map conflict_key db) \<Longrightarrow> distinct (map conflict_key (insert_on_conflict_do_nothing db c))"
  by (auto simp: insert_on_conflict_do_nothing_def)

lemma insert_present:
  "conflict_key c \<in> set (map conflict_key (insert_on_conflict_do_nothing db c))"
  by (auto simp: insert_on_conflict_do_nothing_def)

lemma insert_twice:
  "insert_on_conflict_do_nothing (insert_on_conflict_do_nothing db c) c = insert_on_conflict_do_nothing db c"
  by (auto simp: insert_on_conflict_do_nothing_def)

lemma processMessage_close:
  "Status ev = ''CLOSE'' \<Longrightarrow> processMessage db (Some ev) True = insert_on_conflict_do_nothing db (ev_Candle ev)"
  by (simp add: processMessage_def insertKlineToDB_def)

lemma Run_writer_replay:
  "Status ev = ''CLOSE'' \<Longrightarrow>
   Run_writer db (replicate (Suc n) (Some ev, True)) = insert_on_conflict_do_nothing db (ev_Candle ev)"
proof (induction n arbitrary: db)
  case 0
  then show ?case by (simp add: processMessage_close)
next
  case (Suc n)
  have "Run_writer db (replicate (Suc (Suc n)) (Some ev, True))
        = Run_writer (insert_on_conflict_do_nothing db (ev_Candle ev)) (replicate (Suc n) (Some ev, True))"
    using Suc.prems by (simp add: processMessage_close)
  also have "\<dots> = insert_on_conflict_do_nothing (insert_on_conflict_do_nothing db (ev_Candle ev)) (ev_Candle ev)"
    using Suc.IH[OF Suc.prems] by simp
  finally show ?case by (simp add: insert_twice)
qed

text \<open>
  Claim C8.  An event whose status is not \<open>CLOSE\<close> leaves the table as it is, whether or
  not the database is reachable.  A \<open>CLOSE\<close> event processed any number \<open>n > 0\<close> of
  times, the database executing the statement each time, has the effect of one insert with
  do-nothing-on-conflict: on a table that respects the unique key the bar's key then has
  exactly one row (the bar itself when the key was absent, the old row otherwise), and the
  table still respects the unique key.
\<close>

theorem writer_persists_close_once:
  "(Status ev \<noteq> ''CLOSE'' \<longrightarrow> processMessage db (Some ev) executes = db) \<and>
   (Status ev = ''CLOSE'' \<and> distinct (map conflict_key db) \<and> 0 < n \<longrightarrow>
      Run_writer db (replicate n (Some ev, True)) = insert_on_conflict_do_nothing db (ev_Candle ev) \<and>
      rows_for (Run_writer db (replicate n (Some ev, True))) (conflict_key (ev_Candle ev)) = 1 \<and>
      distinct (map conflict_key (Run_writer db (replicate n (Some ev, True)))) \<and>
      (conflict_key (ev_Candle ev) \<notin> set (map conflict_key db) \<longrightarrow>
         Run_writer db (replicate n (Some ev, True)) = db @ [ev_Candle ev]) \<and>
      (conflict_key (ev_Candle ev) \<in> set (map conflict_key db) \<longrightarrow>
         Run_writer db (replicate n (Some ev, True)) = db))"
proof -
  have a: "Status ev \<noteq> ''CLOSE'' \<longrightarrow> processMessage db (Some ev) executes = db"
    by (simp add: processMessage_def)
  have b: "Run_writer db (replicate n (Some ev, True)) = insert_on_conflict_do_nothing db (ev_Candle ev)"
    if "Status ev = ''CLOSE''" "0 < n"
  proof -
    from that(2) obtain m where "n = Suc m" by (cases n) auto
    then show ?thesis using Run_writer_replay[OF that(1)] by simp
  qed
  have c: "rows_for (insert_on_conflict_do_nothing db (ev_Candle ev)) (conflict_key (ev_Candle ev)) = 1"
    if "distinct (map conflict_key db)"
    by (rule rows_for_distinct[OF insert_distinct[OF that] insert_present])
  show ?thesis using a b c insert_distinct[of db "ev_Candle ev"]
    by (auto simp: insert_on_conflict_do_nothing_def)
qed

theorem writer_persists_close_once_witness:
  "Run_writer [] (replicate 2 (Some \<lparr>Status = ''CLOSE'', ev_Candle = demo_bar\<rparr>, True)) = [demo_bar] \<and>
   rows_for (Run_writer [] (replicate 2 (Some \<lparr>Status = ''CLOSE'', ev_Candle = demo_bar\<rparr>, True)))
     (''XAUUSD'', ''M1'', 600) = 1 \<and>
   processMessage [] (Some \<lparr>Status = ''UPDATE'', ev_Candle = demo_bar\<rparr>) True = []"
  using writer_persists_close_once[of "\<lparr>Status = ''CLOSE'', ev_Candle = demo_bar\<rparr>" "[]" True 2]
        writer_persists_close_once[of "\<lparr>Status = ''UPDATE'', ev_Candle = demo_bar\<rparr>" "[]" True 2]
  by (simp add: conflict_key_def demo_bar_def numeral_2_eq_2 processMessage_def insertKlineToDB_def
        insert_on_conflict_do_nothing_def rows_for_def)

section \<open>Properties of the tick parser\<close>

lemma clean_symbol:
  "(if Contains_dot s then hd (SplitN_dot_2 s) else s) = takeWhile (\<lambda>c. c \<noteq> CHR ''.'') s"
proof (cases "Contains_dot s")
  case True
  then show ?thesis by (simp add: SplitN_dot_2_def)
next
  case False
  then have "\<forall>c\<in>set s. c \<noteq> CHR ''.''" by (auto simp: Contains_dot_def)
  then have "takeWhile (\<lambda>c. c \<noteq> CHR ''.'') s = s" by simp
  with False show ?thesis by (simp only: if_False)
qed

text \<open>
  Claim C5, as the code has it.  A message whose type is not \<open>Quote\<close> makes \<open>parseQuote\<close>
  return the error ``not a quote message'', and \<open>HandleRawQuote\<close> logs it and drops the
  message.  A quote whose time does not parse in the layout makes \<open>parseQuote\<close> return the
  error ``invalid time format'', logged and dropped the same way.  Every other quote, also
  one whose symbol is missing, yields the tick whose symbol is the upstream symbol cut
  at the first dot, whose price is the bid, whose volume is 1 and whose timestamp is the
  parsed instant, and the tick is dispatched.
\<close>

theorem parseQuote_rules:
  "(quote_Type q \<noteq> ''Quote'' \<longrightarrow>
      parseQuote p q = Inl NotAQuoteMessage \<and> HandleRawQuote p q = Dropped_with_log NotAQuoteMessage) \<and>
   (quote_Type q = ''Quote'' \<and> p (args_Time (Args (Data q))) = None \<longrightarrow>
      parseQuote p q = Inl (InvalidTimeFormat (args_Time (Args (Data q)))) \<and>
      HandleRawQuote p q = Dropped_with_log (InvalidTimeFormat (args_Time (Args (Data q))))) \<and>
   (quote_Type q = ''Quote'' \<and> p (args_Time (Args (Data q))) = Some ts \<longrightarrow>
      parseQuote p q =
        Inr \<lparr>tick_Symbol = takeWhile (\<lambda>c. c \<noteq> CHR ''.'') (args_Symbol (Args (Data q))),
             Price = Bid (Args (Data q)), tick_Volume = 1, Timestamp = ts\<rparr> \<and>
      HandleRawQuote p q =
        Dispatched \<lparr>tick_Symbol = takeWhile (\<lambda>c. c \<noteq> CHR ''.'') (args_Symbol (Args (Data q))),
             Price = Bid (Args (Data q)), tick_Volume = 1, Timestamp = ts\<rparr>)"
  by (simp add: parseQuote_def HandleRawQuote_def Let_def clean_symbol)

theorem parseQuote_rules_witness:
  "HandleRawQuote demo_parse (demo_quote ''Quote'' ''XAUUSD.raw'' ''2025-11-24T10:00:15'') =
     Dispatched \<lparr>tick_Symbol = ''XAUUSD'', Price = 2650, tick_Volume = 1,
                 Timestamp = demo_day + 10 * Hour + 15 * Second\<rparr> \<and>
   HandleRawQuote demo_parse (demo_quote ''Heartbeat'' ''XAUUSD.raw'' ''2025-11-24T10:00:15'') =
     Dropped_with_log NotAQuoteMessage \<and>
   HandleRawQuote demo_parse (demo_quote ''Quote'' ''XAUUSD.raw'' ''24/11/2025 10:00'') =
     Dropped_with_log (InvalidTimeFormat ''24/11/2025 10:00'')"
  using parseQuote_rules[of "demo_quote ''Quote'' ''XAUUSD.raw'' ''2025-11-24T10:00:15''" demo_parse
          "demo_day + 10 * Hour + 15 * Second"]
        parseQuote_rules[of "demo_quote ''Heartbeat'' ''XAUUSD.raw'' ''2025-11-24T10:00:15''" demo_parse 0]
        parseQuote_rules[of "demo_quote ''Quote'' ''XAUUSD.raw'' ''24/11/2025 10:00''" demo_parse 0]
  by (simp add: demo_quote_def demo_parse_def)

text \<open>
  The claim as written has a message without symbol dropped.  The parser has no such
  check: the quote below, whose symbol is empty, becomes a tick with the empty symbol and
  is dispatched.
\<close>

theorem parseQuote_missing_symbol_counterexample:
  "parseQuote demo_parse (demo_quote ''Quote'' [] ''2025-11-24T10:00:15'') =
     Inr \<lparr>tick_Symbol = [], Price = 2650, tick_Volume = 1,
          Timestamp = demo_day + 10 * Hour + 15 * Second\<rparr> \<and>
   HandleRawQuote demo_parse (demo_quote ''Quote'' [] ''2025-11-24T10:00:15'') =
     Dispatched \<lparr>tick_Symbol = [], Price = 2650, tick_Volume = 1,
                 Timestamp = demo_day + 10 * Hour + 15 * Second\<rparr>"
  by (simp add: parseQuote_def HandleRawQuote_def Let_def demo_quote_def demo_parse_def
        Contains_dot_def)

section \<open>Properties of the aggregator\<close>

lemma fill_loop_length: "length (fill_loop t lc ct n) = n"
  by (induction n arbitrary: ct) (simp_all add: Let_def)

lemma fill_loop_map:
  "fill_loop t lc ct n =
     map (\<lambda>k. \<lparr>Status = ''CLOSE'',
                 ev_Candle = \<lparr>Symbol = agg_Symbol t, Timeframe = TfName t,
                               StartTime = ct + int k * agg_Timeframe t,
                               Open = lc, High = lc, Low = lc, Close = lc, Volume = 0\<rparr>\<rparr>)
         [1..<Suc n]"
proof (induction n arbitrary: ct)
  case 0
  show ?case by simp
next
  case (Suc n)
  have shift: "[Suc 1..<Suc (Suc n)] = map Suc [1..<Suc n]"
    by (simp only: map_Suc_upt)
  have "[1..<Suc (Suc n)] = 1 # [Suc 1..<Suc (Suc n)]"
    by (simp add: upt_conv_Cons)
  then have split: "[1..<Suc (Suc n)] = 1 # map Suc [1..<Suc n]"
    using shift by simp
  show ?case
    unfolding split
    by (simp add: Let_def time_Add_def Suc.IH algebra_simps del: upt_Suc)
qed

lemma fillMissingBars_gap:
  "currentCandle t = Some C \<Longrightarrow> 0 < count \<Longrightarrow>
   fillMissingBars t count =
     map (\<lambda>k. \<lparr>Status = ''CLOSE'', ev_Candle = gap_bar t C (int k)\<rparr>) [1..<Suc (nat count)]"
  by (simp add: fillMissingBars_def fill_loop_map gap_bar_def del: upt_Suc)

lemma go_div_pos:
  assumes "0 \<le> a" "a \<le> maxDuration" "0 < b"
  shows "go_div a b = Inr (a div b)"
proof -
  have "a div b \<le> a div 1" using assms by (intro zdiv_mono2) simp_all
  then have "a div b \<le> a" by simp
  then have hi: "a div b < 2 ^ 63" using assms by (simp add: maxDuration_def)
  have lo: "0 \<le> a div b" using assms by (simp add: pos_imp_zdiv_nonneg_iff)
  have wrap: "signed_take_bit 63 (a div b) = a div b"
    using lo hi by (simp add: signed_take_bit_int_eq_self)
  have quot: "sgn a * sgn b * (\<bar>a\<bar> div \<bar>b\<bar>) = a div b"
    using assms by (cases "a = 0") (simp_all add: sgn_if)
  have "go_div a b = Inr (signed_take_bit 63 (sgn a * sgn b * (\<bar>a\<bar> div \<bar>b\<bar>)))"
    using assms by (simp add: go_div_def del: signed_take_bit_numeral_bit0 signed_take_bit_numeral_bit1)
  then show ?thesis unfolding quot wrap .
qed

lemma time_Sub_exact:
  "0 \<le> t - u \<Longrightarrow> t - u \<le> maxDuration \<Longrightarrow> time_Sub t u = t - u"
  by (simp add: time_Sub_def Let_def minDuration_def)

text \<open>
  Claim C3, as the code has it.  Let the machine have the current bar \<open>C\<close> and a positive
  period \<open>P\<close>, and let a tick arrive whose window starts \<open>g \<ge> 2\<close> periods after \<open>C\<close>,
  the distance \<open>g * P\<close> being within the range of a \<open>Duration\<close>.  Then the machine
  publishes exactly \<open>g - 1\<close> flat bars as \<open>CLOSE\<close>, at the periods \<open>C.start + P\<close>,
  \<open>C.start + 2P\<close> and so on, each with all four prices at the close of \<open>C\<close> and volume 0;
  then \<open>CLOSE\<close> for \<open>C\<close>; then it replaces \<open>C\<close> by the bar opened by the tick at the
  tick's window and publishes \<open>UPDATE\<close> for it.
\<close>

theorem ProcessTick_gap_fill:
  assumes cur: "currentCandle t = Some C"
      and period: "0 < agg_Timeframe t"
      and window: "time_Truncate (Timestamp tick) (agg_Timeframe t) = StartTime C + g * agg_Timeframe t"
      and gap: "2 \<le> g"
      and fits: "g * agg_Timeframe t \<le> maxDuration"
  shows "ProcessTick t tick =
           Inr (t\<lparr>currentCandle := Some (opened_bar t tick (StartTime C + g * agg_Timeframe t))\<rparr>,
                map (\<lambda>k. \<lparr>Status = ''CLOSE'', ev_Candle = gap_bar t C (int k)\<rparr>) [1..<nat g] @
                [\<lparr>Status = ''CLOSE'', ev_Candle = C\<rparr>,
                 \<lparr>Status = ''UPDATE'',
                  ev_Candle = opened_bar t tick (StartTime C + g * agg_Timeframe t)\<rparr>]) \<and>
         length (map (\<lambda>k. \<lparr>Status = ''CLOSE'', ev_Candle = gap_bar t C (int k)\<rparr>) [1..<nat g])
           = nat (g - 1)"
proof -
  let ?P = "agg_Timeframe t"
  let ?W = "StartTime C + g * ?P"
  have gP: "0 < g * ?P" using gap period by simp
  have after: "?W > StartTime C" using gP by simp
  have sub: "time_Sub ?W (StartTime C) = g * ?P"
    using time_Sub_exact[of ?W "StartTime C"] gP fits by simp
  have quot: "go_div (g * ?P) ?P = Inr g"
    using go_div_pos[of "g * ?P" ?P] gP fits period by simp
  have fill: "fillMissingBars t (g - 1) =
                map (\<lambda>k. \<lparr>Status = ''CLOSE'', ev_Candle = gap_bar t C (int k)\<rparr>) [1..<nat g]"
  proof -
    have "Suc (nat (g - 1)) = nat g" using gap by simp
    then show ?thesis using fillMissingBars_gap[OF cur, of "g - 1"] gap by simp
  qed
  have "ProcessTick t tick =
          Inr (t\<lparr>currentCandle := Some (opened_bar t tick ?W)\<rparr>,
               fillMissingBars t (g - 1) @
               [\<lparr>Status = ''CLOSE'', ev_Candle = C\<rparr>,
                \<lparr>Status = ''UPDATE'', ev_Candle = opened_bar t tick ?W\<rparr>])"
    using cur after gap
    by (simp add: ProcessTick_def Let_def window sub quot publishCandle_def opened_bar_def)
  then show ?thesis using fill gap by simp
qed

theorem ProcessTick_gap_fill_witness:
  "events_of (run_ticks demo_m1 gap_ticks) =
     [\<lparr>Status = ''UPDATE'', ev_Candle = opened_bar demo_m1 first_tick (demo_day + 10 * Hour)\<rparr>,
      \<lparr>Status = ''CLOSE'',
       ev_Candle = gap_bar demo_m1 (opened_bar demo_m1 first_tick (demo_day + 10 * Hour)) 1\<rparr>,
      \<lparr>Status = ''CLOSE'',
       ev_Candle = gap_bar demo_m1 (opened_bar demo_m1 first_tick (demo_day + 10 * Hour)) 2\<rparr>,
      \<lparr>Status = ''CLOSE'', ev_Candle = opened_bar demo_m1 first_tick (demo_day + 10 * Hour)\<rparr>,
      \<lparr>Status = ''UPDATE'',
       ev_Candle = opened_bar demo_m1 late_tick (demo_day + 10 * Hour + 3 * Minute)\<rparr>]"
proof -
  define c1 where "c1 = opened_bar demo_m1 first_tick (demo_day + 10 * Hour)"
  define t1 where "t1 = demo_m1\<lparr>currentCandle := Some c1\<rparr>"
  have first: "ProcessTick demo_m1 first_tick = Inr (t1, [\<lparr>Status = ''UPDATE'', ev_Candle = c1\<rparr>])"
    by (simp add: t1_def c1_def ProcessTick_def Let_def demo_m1_def NewTimeframeAggregator_def
          first_tick_def demo_tick_def time_Truncate_def publishCandle_def opened_bar_def
          demo_day_def Hour_def Minute_def Second_def)
  have c: "currentCandle t1 = Some c1"
    by (simp add: t1_def)
  have per: "agg_Timeframe t1 = Minute"
    by (simp add: t1_def demo_m1_def NewTimeframeAggregator_def)
  have p: "0 < agg_Timeframe t1"
    by (simp add: per Minute_def Second_def)
  have w: "time_Truncate (Timestamp late_tick) (agg_Timeframe t1) = StartTime c1 + 3 * agg_Timeframe t1"
    by (simp add: per c1_def late_tick_def demo_tick_def
          time_Truncate_def opened_bar_def demo_day_def Hour_def Minute_def Second_def)
  have f: "3 * agg_Timeframe t1 \<le> maxDuration"
    by (simp add: per Minute_def Second_def maxDuration_def)
  have up: "[Suc 0..<3] = [Suc 0, 2]"
    by (simp add: upt_conv_Cons)
  have second: "ProcessTick t1 late_tick =
     Inr (t1\<lparr>currentCandle := Some (opened_bar t1 late_tick (StartTime c1 + 3 * agg_Timeframe t1))\<rparr>,
          [\<lparr>Status = ''CLOSE'', ev_Candle = gap_bar t1 c1 1\<rparr>,
           \<lparr>Status = ''CLOSE'', ev_Candle = gap_bar t1 c1 2\<rparr>,
           \<lparr>Status = ''CLOSE'', ev_Candle = c1\<rparr>,
           \<lparr>Status = ''UPDATE'',
            ev_Candle = opened_bar t1 late_tick (StartTime c1 + 3 * agg_Timeframe t1)\<rparr>])"
    using ProcessTick_gap_fill[OF c p w _ f] by (simp add: up)
  have same: "gap_bar t1 c k = gap_bar demo_m1 c k"
             "opened_bar t1 late_tick x = opened_bar demo_m1 late_tick x" for c k x
    by (simp_all add: t1_def gap_bar_def opened_bar_def)
  have start: "StartTime (opened_bar demo_m1 first_tick (demo_day + 10 * Hour)) + 3 * agg_Timeframe t1
                 = demo_day + 10 * Hour + 3 * Minute"
    by (simp add: per opened_bar_def)
  have "events_of (run_ticks demo_m1 gap_ticks) =
          [\<lparr>Status = ''UPDATE'', ev_Candle = c1\<rparr>,
           \<lparr>Status = ''CLOSE'', ev_Candle = gap_bar t1 c1 1\<rparr>,
           \<lparr>Status = ''CLOSE'', ev_Candle = gap_bar t1 c1 2\<rparr>,
           \<lparr>Status = ''CLOSE'', ev_Candle = c1\<rparr>,
           \<lparr>Status = ''UPDATE'',
            ev_Candle = opened_bar t1 late_tick (StartTime c1 + 3 * agg_Timeframe t1)\<rparr>]"
    by (simp add: gap_ticks_def first second events_of_def)
  then show ?thesis
    unfolding c1_def same start .
qed

text \<open>
  Without the bound on the distance the count is not \<open>g - 1\<close>: \<open>Sub\<close> saturates at the
  largest \<open>Duration\<close>, about 292 years.  The daily machine below gets a tick 110000 days
  after its current bar and publishes 106750 flat bars, not 109999.
\<close>

lemma ProcessTick_saturated_events:
  "length (events_of (ProcessTick demo_d1 far_tick)) = 106752"
proof -
  define c0 where "c0 = \<lparr>Symbol = ''XAUUSD'', Timeframe = ''D1'', StartTime = demo_day, Open = 2650,
                          High = 2650, Low = 2650, Close = 2650, Volume = 1\<rparr>"
  define W where "W = demo_day + 110000 * (24 * Hour)"
  define D where "D = 24 * Hour"
  have cur: "currentCandle demo_d1 = Some c0"
    by (simp add: demo_d1_def c0_def)
  have per: "agg_Timeframe demo_d1 = D"
    by (simp add: demo_d1_def NewTimeframeAggregator_def D_def)
  have st: "StartTime c0 = demo_day"
    by (simp add: c0_def)
  have trunc: "time_Truncate (Timestamp far_tick) D = W"
    by (simp add: far_tick_def demo_tick_def time_Truncate_def W_def D_def
          demo_day_def Hour_def Minute_def Second_def)
  have after: "W > demo_day"
    by (simp add: W_def Hour_def Minute_def Second_def)
  have sub: "time_Sub W demo_day = maxDuration"
    by (simp add: time_Sub_def Let_def maxDuration_def W_def Hour_def Minute_def Second_def)
  have quot: "go_div maxDuration D = Inr 106751"
    using go_div_pos[of maxDuration D]
    by (simp add: maxDuration_def D_def Hour_def Minute_def Second_def)
  have fill: "length (fillMissingBars demo_d1 (106751 - 1)) = 106750"
    by (simp add: fillMissingBars_def cur fill_loop_length)
  have "events_of (ProcessTick demo_d1 far_tick) =
          fillMissingBars demo_d1 (106751 - 1) @ publishCandle demo_d1 ''CLOSE'' @
          publishCandle (demo_d1\<lparr>currentCandle :=
            Some \<lparr>Symbol = agg_Symbol demo_d1, Timeframe = TfName demo_d1, StartTime = W,
                  Open = Price far_tick, High = Price far_tick, Low = Price far_tick,
                  Close = Price far_tick, Volume = tick_Volume far_tick\<rparr>\<rparr>) ''UPDATE''"
    using after
    by (simp add: ProcessTick_def Let_def cur per st trunc sub quot events_of_def)
  then show ?thesis
    using fill by (simp add: publishCandle_def cur)
qed

theorem ProcessTick_gap_saturates_counterexample:
  "currentCandle demo_d1 \<noteq> None \<and>
   time_Truncate (Timestamp far_tick) (agg_Timeframe demo_d1)
     = StartTime (the (currentCandle demo_d1)) + 110000 * agg_Timeframe demo_d1 \<and>
   length (events_of (ProcessTick demo_d1 far_tick)) = 106750 + 2 \<and>
   (106750 :: nat) \<noteq> 110000 - 1"
  using ProcessTick_saturated_events
  by (simp add: far_tick_def demo_tick_def demo_d1_def NewTimeframeAggregator_def time_Truncate_def
        demo_day_def Hour_def Minute_def Second_def)

lemma block_scan_append:
  "block_scan f P ph (xs @ ys) =
     (case block_scan f P ph xs of None \<Rightarrow> None | Some ph' \<Rightarrow> block_scan f P ph' ys)"
  by (induction xs arbitrary: ph) (auto split: option.splits)

lemma scan_fill_loop:
  assumes "0 < P" "agg_Timeframe t = P" "Symbol b = agg_Symbol t" "Timeframe b = TfName t"
          "StartTime b < prev + P"
  shows "block_scan True P (Filling b prev) (fill_loop t (Close b) prev n @ rest)
           = block_scan True P (Filling b (prev + int n * P)) rest"
  using assms(5)
proof (induction n arbitrary: prev)
  case 0
  show ?case by simp
next
  case (Suc n)
  let ?c = "\<lparr>Symbol = agg_Symbol t, Timeframe = TfName t, StartTime = prev + P,
              Open = Close b, High = Close b, Low = Close b, Close = Close b, Volume = 0\<rparr>"
  have ne: "?c \<noteq> b"
  proof
    assume "?c = b"
    then have "StartTime ?c = StartTime b" by simp
    with Suc.prems show False by simp
  qed
  have fl: "is_fill P b prev ?c" using assms by (simp add: is_fill_def)
  have step: "block_step True P (Filling b prev) \<lparr>Status = ''CLOSE'', ev_Candle = ?c\<rparr>
                = Some (Filling b (prev + P))"
    using ne fl by simp
  have next_ok: "StartTime b < (prev + P) + P" using Suc.prems assms(1) by simp
  show ?case
    using Suc.IH[OF next_ok] step assms(2)
    by (simp add: Let_def time_Add_def algebra_simps)
qed

lemma scan_fill_from_bar:
  assumes "0 < P" "agg_Timeframe t = P" "Symbol b = agg_Symbol t" "Timeframe b = TfName t"
  shows "block_scan True P (InBar b) (fill_loop t (Close b) (StartTime b) (Suc n) @ rest)
           = block_scan True P (Filling b (StartTime b + int (Suc n) * P)) rest"
proof -
  let ?c = "\<lparr>Symbol = agg_Symbol t, Timeframe = TfName t, StartTime = StartTime b + P,
              Open = Close b, High = Close b, Low = Close b, Close = Close b, Volume = 0\<rparr>"
  have ne: "?c \<noteq> b"
  proof
    assume "?c = b"
    then have "StartTime ?c = StartTime b" by simp
    with assms(1) show False by simp
  qed
  have fl: "is_fill P b (StartTime b) ?c" using assms by (simp add: is_fill_def)
  have step: "block_step True P (InBar b) \<lparr>Status = ''CLOSE'', ev_Candle = ?c\<rparr>
                = Some (Filling b (StartTime b + P))"
    using ne fl by simp
  have lt: "StartTime b < (StartTime b + P) + P" using assms(1) by simp
  show ?thesis
    using scan_fill_loop[OF assms lt, of n rest] step assms(2)
    by (simp add: Let_def time_Add_def algebra_simps)
qed

lemma fill_loop_starts:
  "agg_Timeframe t dvd ct \<Longrightarrow> e \<in> set (fill_loop t lc ct n) \<Longrightarrow>
   agg_Timeframe t dvd StartTime (ev_Candle e)"
proof (induction n arbitrary: ct)
  case 0
  then show ?case by simp
next
  case (Suc n)
  have nxt: "agg_Timeframe t dvd ct + agg_Timeframe t" using Suc.prems(1) by simp
  from Suc.prems(2) consider
    "e = \<lparr>Status = ''CLOSE'',
          ev_Candle = \<lparr>Symbol = agg_Symbol t, Timeframe = TfName t,
                        StartTime = ct + agg_Timeframe t, Open = lc, High = lc, Low = lc,
                        Close = lc, Volume = 0\<rparr>\<rparr>"
    | "e \<in> set (fill_loop t lc (ct + agg_Timeframe t) n)"
    by (auto simp: Let_def time_Add_def)
  then show ?case
  proof cases
    case 1
    then show ?thesis using nxt by simp
  next
    case 2
    then show ?thesis using Suc.IH[OF nxt] by simp
  qed
qed

lemma Truncate_dvd: "0 < P \<Longrightarrow> P dvd time_Truncate x P"
  by (simp add: time_Truncate_def dvd_eq_mod_eq_0 mod_diff_left_eq[symmetric] minus_mod_eq_mult_div)

lemma time_Sub_pos:
  assumes "u < t"
  shows "0 < time_Sub t u \<and> time_Sub t u \<le> maxDuration \<and> time_Sub t u \<le> t - u"
  using assms by (auto simp: time_Sub_def Let_def maxDuration_def minDuration_def)

lemma ProcessTick_step:
  assumes period: "0 < agg_Timeframe t" and inv: "agg_inv t" and flag: "f \<or> \<not> skips t tick"
  shows "\<exists>c' evs. ProcessTick t tick = Inr (t\<lparr>currentCandle := c'\<rparr>, evs) \<and>
           agg_inv (t\<lparr>currentCandle := c'\<rparr>) \<and>
           block_scan f (agg_Timeframe t) (phase_of t) evs = Some (phase_of (t\<lparr>currentCandle := c'\<rparr>)) \<and>
           (\<forall>e\<in>set evs. agg_Timeframe t dvd StartTime (ev_Candle e))"
proof -
  let ?P = "agg_Timeframe t"
  let ?W = "time_Truncate (Timestamp tick) ?P"
  let ?fresh = "\<lparr>Symbol = agg_Symbol t, Timeframe = TfName t, StartTime = ?W,
                  Open = Price tick, High = Price tick, Low = Price tick, Close = Price tick,
                  Volume = tick_Volume tick\<rparr>"
  let ?t' = "t\<lparr>currentCandle := Some ?fresh\<rparr>"
  have dvdW: "?P dvd ?W" using period by (rule Truncate_dvd)
  have inv': "agg_inv ?t'" using dvdW by (simp add: agg_inv_def)
  have ph': "phase_of ?t' = InBar ?fresh" by (simp add: phase_of_def)
  show ?thesis
  proof (cases "currentCandle t")
    case None
    have run: "ProcessTick t tick = Inr (?t', [\<lparr>Status = ''UPDATE'', ev_Candle = ?fresh\<rparr>])"
      using None by (simp add: ProcessTick_def Let_def publishCandle_def)
    have scan: "block_scan f ?P (phase_of t) [\<lparr>Status = ''UPDATE'', ev_Candle = ?fresh\<rparr>]
                  = Some (phase_of ?t')"
      using None dvdW by (simp add: phase_of_def)
    show ?thesis
      using run inv' scan dvdW by (intro exI[of _ "Some ?fresh"] exI[of _ "[\<lparr>Status = ''UPDATE'', ev_Candle = ?fresh\<rparr>]"]) simp
  next
    case (Some cur)
    have curP: "?P dvd StartTime cur" and curS: "Symbol cur = agg_Symbol t" and curT: "Timeframe cur = TfName t"
      using inv Some by (simp_all add: agg_inv_def)
    have ph: "phase_of t = InBar cur" using Some by (simp add: phase_of_def)
    consider (after) "?W > StartTime cur" | (same) "?W = StartTime cur" | (before) "?W < StartTime cur"
      by linarith
    then show ?thesis
    proof cases
      case after
      define d where "d = time_Sub ?W (StartTime cur)"
      define m where "m = d div ?P"
      have d: "0 < d" "d \<le> maxDuration" "d \<le> ?W - StartTime cur"
        using time_Sub_pos[OF after] by (simp_all add: d_def)
      have quot: "go_div d ?P = Inr m"
        using go_div_pos[of d ?P] d period by (simp add: m_def)
      have mP: "m * ?P \<le> d"
      proof -
        have "d div ?P * ?P + d mod ?P = d" by (rule div_mult_mod_eq)
        moreover have "0 \<le> d mod ?P" using period by (rule pos_mod_sign)
        ultimately show ?thesis unfolding m_def by linarith
      qed
      let ?tail = "[\<lparr>Status = ''CLOSE'', ev_Candle = cur\<rparr>, \<lparr>Status = ''UPDATE'', ev_Candle = ?fresh\<rparr>]"
      let ?filled = "(if m > 1 then fillMissingBars t (m - 1) else [])"
      have run: "ProcessTick t tick = Inr (?t', ?filled @ ?tail)"
        using Some after quot
        by (simp add: ProcessTick_def Let_def publishCandle_def d_def[symmetric])
      have tail_dvd: "\<forall>e\<in>set ?tail. ?P dvd StartTime (ev_Candle e)"
        using curP dvdW by simp
      show ?thesis
      proof (cases "m > 1")
        case True
        have "skips t tick"
        proof -
          have "2 * ?P \<le> m * ?P" using True period by simp
          then have "StartTime cur + 2 * ?P \<le> ?W" using mP d(3) by linarith
          then show ?thesis using Some period by (simp add: skips_def)
        qed
        with flag have f: "f" by blast
        obtain n where n: "nat (m - 1) = Suc n" using True by (cases "nat (m - 1)") auto
        have nm: "int (Suc n) = m - 1" using n True by linarith
        have filled: "?filled = fill_loop t (Close cur) (StartTime cur) (Suc n)"
          using True Some n by (simp add: fillMissingBars_def)
        have below: "StartTime cur + (m - 1) * ?P < ?W"
        proof -
          have "StartTime cur + m * ?P \<le> ?W" using mP d(3) by linarith
          moreover have "(m - 1) * ?P = m * ?P - ?P" by (simp add: algebra_simps)
          ultimately show ?thesis using period by linarith
        qed
        have cur_ne: "\<lparr>Status = ''CLOSE'', ev_Candle = cur\<rparr> = \<lparr>Status = ''CLOSE'', ev_Candle = cur\<rparr>" ..
        have "block_scan f ?P (InBar cur) (fill_loop t (Close cur) (StartTime cur) (Suc n) @ ?tail)
                = block_scan f ?P (Filling cur (StartTime cur + int (Suc n) * ?P)) ?tail"
          using scan_fill_from_bar[OF period refl curS curT] f by simp
        also have "\<dots> = block_scan f ?P (Filling cur (StartTime cur + (m - 1) * ?P)) ?tail"
          unfolding nm ..
        also have "\<dots> = Some (InBar ?fresh)"
          using below dvdW by simp
        finally have scan: "block_scan f ?P (phase_of t) (?filled @ ?tail) = Some (phase_of ?t')"
          unfolding ph ph' filled .
        have fill_dvd: "\<forall>e\<in>set ?filled. ?P dvd StartTime (ev_Candle e)"
          unfolding filled using fill_loop_starts[OF curP] by blast
        have all_dvd: "\<forall>e\<in>set (?filled @ ?tail). ?P dvd StartTime (ev_Candle e)"
          using fill_dvd tail_dvd by (simp only: set_append ball_Un)
        show ?thesis
          using run inv' scan all_dvd by blast
      next
        case False
        have filled: "?filled = []" using False by simp
        have "block_scan f ?P (InBar cur) ?tail = Some (InBar ?fresh)"
          using after dvdW by simp
        then have scan: "block_scan f ?P (phase_of t) (?filled @ ?tail) = Some (phase_of ?t')"
          unfolding ph ph' filled by simp
        have all_dvd: "\<forall>e\<in>set (?filled @ ?tail). ?P dvd StartTime (ev_Candle e)"
          unfolding filled using tail_dvd by simp
        show ?thesis
          using run inv' scan all_dvd by blast
      qed
    next
      case same
      let ?cur' = "cur\<lparr>High := max_f (High cur) (Price tick), Low := min_f (Low cur) (Price tick),
                       Close := Price tick, Volume := Volume cur + tick_Volume tick\<rparr>"
      let ?t2 = "t\<lparr>currentCandle := Some ?cur'\<rparr>"
      have run: "ProcessTick t tick = Inr (?t2, [\<lparr>Status = ''UPDATE'', ev_Candle = ?cur'\<rparr>])"
        using Some same by (simp add: ProcessTick_def Let_def publishCandle_def)
      have inv2: "agg_inv ?t2" using curP curS curT by (simp add: agg_inv_def)
      have scan: "block_scan f ?P (phase_of t) [\<lparr>Status = ''UPDATE'', ev_Candle = ?cur'\<rparr>]
                    = Some (phase_of ?t2)"
        unfolding ph by (simp add: phase_of_def)
      have dv: "\<forall>e\<in>set [\<lparr>Status = ''UPDATE'', ev_Candle = ?cur'\<rparr>]. ?P dvd StartTime (ev_Candle e)"
        using curP by simp
      show ?thesis
        using run inv2 scan dv by blast
    next
      case before
      have run: "ProcessTick t tick = Inr (t\<lparr>currentCandle := currentCandle t\<rparr>, [])"
        using Some before by (simp add: ProcessTick_def Let_def)
      show ?thesis
        using run inv by (intro exI[of _ "currentCandle t"] exI[of _ "[]"]) simp
    qed
  qed
qed

lemma run_ticks_blocks:
  assumes "0 < agg_Timeframe t" "agg_inv t" "f \<or> no_skips t ticks"
  shows "\<exists>c' evs. run_ticks t ticks = Inr (t\<lparr>currentCandle := c'\<rparr>, evs) \<and>
           block_scan f (agg_Timeframe t) (phase_of t) evs = Some (phase_of (t\<lparr>currentCandle := c'\<rparr>)) \<and>
           (\<forall>e\<in>set evs. agg_Timeframe t dvd StartTime (ev_Candle e))"
  using assms
proof (induction ticks arbitrary: t)
  case Nil
  show ?case by (intro exI[of _ "currentCandle t"] exI[of _ "[]"]) simp
next
  case (Cons tick ticks)
  have flag: "f \<or> \<not> skips t tick" using Cons.prems(3) by auto
  from ProcessTick_step[OF Cons.prems(1,2) flag] obtain c1 evs1 where
    one: "ProcessTick t tick = Inr (t\<lparr>currentCandle := c1\<rparr>, evs1)"
    and inv1: "agg_inv (t\<lparr>currentCandle := c1\<rparr>)"
    and scan1: "block_scan f (agg_Timeframe t) (phase_of t) evs1 = Some (phase_of (t\<lparr>currentCandle := c1\<rparr>))"
    and dvd1: "\<forall>e\<in>set evs1. agg_Timeframe t dvd StartTime (ev_Candle e)"
    by blast
  let ?t1 = "t\<lparr>currentCandle := c1\<rparr>"
  have p1: "0 < agg_Timeframe ?t1" using Cons.prems(1) by simp
  have rest: "f \<or> no_skips ?t1 ticks" using Cons.prems(3) one by auto
  from Cons.IH[OF p1 inv1 rest] obtain c2 evs2 where
    two: "run_ticks ?t1 ticks = Inr (t\<lparr>currentCandle := c2\<rparr>, evs2)"
    and scan2: "block_scan f (agg_Timeframe t) (phase_of ?t1) evs2 = Some (phase_of (t\<lparr>currentCandle := c2\<rparr>))"
    and dvd2: "\<forall>e\<in>set evs2. agg_Timeframe t dvd StartTime (ev_Candle e)"
    by auto
  have run: "run_ticks t (tick # ticks) = Inr (t\<lparr>currentCandle := c2\<rparr>, evs1 @ evs2)"
    using one two by simp
  have scan: "block_scan f (agg_Timeframe t) (phase_of t) (evs1 @ evs2) = Some (phase_of (t\<lparr>currentCandle := c2\<rparr>))"
    using scan1 scan2 by (simp add: block_scan_append)
  have dv: "\<forall>e\<in>set (evs1 @ evs2). agg_Timeframe t dvd StartTime (ev_Candle e)"
    using dvd1 dvd2 by (simp only: set_append ball_Un)
  show ?case using run scan dv by blast
qed

text \<open>
  Claim C2, as the code has it.  For every tick sequence fed into a machine with positive
  period \<open>P\<close> and no current bar, the run ends without panic and every published bar
  starts at a multiple of \<open>P\<close>.  The events are a concatenation of blocks, each one or
  more \<open>UPDATE\<close>s on a bar, then the stand-alone \<open>CLOSE\<close>s of the flat bars that fill the
  gap after it (none when the next tick falls into the next period), then the single
  \<open>CLOSE\<close> of that bar; the last block is still open; each block starts after everything
  before it.  When no tick skips a period the sequence is of the form the spec states,
  blocks \<open>UPDATE+ CLOSE\<close> with strictly increasing start times.
\<close>

theorem run_ticks_event_blocks:
  assumes period: "0 < agg_Timeframe t" and start: "currentCandle t = None"
  shows "\<exists>t' evs. run_ticks t ticks = Inr (t', evs) \<and>
           block_scan True (agg_Timeframe t) Idle evs = Some (phase_of t') \<and>
           (\<forall>e\<in>set evs. agg_Timeframe t dvd StartTime (ev_Candle e)) \<and>
           (no_skips t ticks \<longrightarrow> block_scan False (agg_Timeframe t) Idle evs = Some (phase_of t'))"
proof -
  have inv: "agg_inv t" using start by (simp add: agg_inv_def)
  have idle: "phase_of t = Idle" using start by (simp add: phase_of_def)
  from run_ticks_blocks[OF period inv, where f = True and ticks = ticks] obtain c' evs where
    run: "run_ticks t ticks = Inr (t\<lparr>currentCandle := c'\<rparr>, evs)"
    and scan: "block_scan True (agg_Timeframe t) Idle evs = Some (phase_of (t\<lparr>currentCandle := c'\<rparr>))"
    and dv: "\<forall>e\<in>set evs. agg_Timeframe t dvd StartTime (ev_Candle e)"
    unfolding idle by auto
  have plain: "block_scan False (agg_Timeframe t) Idle evs = Some (phase_of (t\<lparr>currentCandle := c'\<rparr>))"
    if "no_skips t ticks"
    using run_ticks_blocks[OF period inv, where f = False and ticks = ticks] that run unfolding idle by auto
  show ?thesis using run scan dv plain by blast
qed

lemmas demo_clock = demo_day_def Hour_def Minute_def Second_def

lemmas aggregator_eval = ProcessTick_def Let_def time_Truncate_def time_Sub_def time_Add_def
  go_div_def publishCandle_def fillMissingBars_def maxDuration_def minDuration_def
  NewTimeframeAggregator_def demo_tick_def

lemma gap_ticks_events:
  "events_of (run_ticks demo_m1 gap_ticks) =
     [\<lparr>Status = ''UPDATE'', ev_Candle = opened_bar demo_m1 first_tick (demo_day + 10 * Hour)\<rparr>,
      \<lparr>Status = ''CLOSE'',
       ev_Candle = gap_bar demo_m1 (opened_bar demo_m1 first_tick (demo_day + 10 * Hour)) 1\<rparr>,
      \<lparr>Status = ''CLOSE'',
       ev_Candle = gap_bar demo_m1 (opened_bar demo_m1 first_tick (demo_day + 10 * Hour)) 2\<rparr>,
      \<lparr>Status = ''CLOSE'', ev_Candle = opened_bar demo_m1 first_tick (demo_day + 10 * Hour)\<rparr>,
      \<lparr>Status = ''UPDATE'',
       ev_Candle = opened_bar demo_m1 late_tick (demo_day + 10 * Hour + 3 * Minute)\<rparr>]"
  by (simp add: events_of_def gap_ticks_def first_tick_def late_tick_def demo_m1_def
        aggregator_eval opened_bar_def gap_bar_def demo_clock numeral_2_eq_2)

text \<open>
  The form the spec states fails as soon as a tick skips periods: the flat bars are
  published as \<open>CLOSE\<close> without an \<open>UPDATE\<close>, and before the \<open>CLOSE\<close> of the earlier bar.
\<close>

theorem run_ticks_gap_breaks_blocks_counterexample:
  "map (\<lambda>e. (Status e, StartTime (ev_Candle e))) (events_of (run_ticks demo_m1 gap_ticks)) =
     [(''UPDATE'', demo_day + 10 * Hour),
      (''CLOSE'', demo_day + 10 * Hour + 1 * Minute),
      (''CLOSE'', demo_day + 10 * Hour + 2 * Minute),
      (''CLOSE'', demo_day + 10 * Hour),
      (''UPDATE'', demo_day + 10 * Hour + 3 * Minute)] \<and>
   block_scan False (agg_Timeframe demo_m1) Idle (events_of (run_ticks demo_m1 gap_ticks)) = None"
  unfolding gap_ticks_events
  by (simp add: opened_bar_def gap_bar_def demo_m1_def NewTimeframeAggregator_def demo_clock
        first_tick_def late_tick_def demo_tick_def)

lemma plain_ticks_no_skips: "no_skips demo_m1 plain_ticks"
  by (simp add: plain_ticks_def demo_m1_def skips_def aggregator_eval demo_clock max_f_def min_f_def)

theorem run_ticks_event_blocks_witness:
  "0 < agg_Timeframe demo_m1 \<and> currentCandle demo_m1 = None \<and> no_skips demo_m1 plain_ticks \<and>
   map (\<lambda>e. (Status e, StartTime (ev_Candle e))) (events_of (run_ticks demo_m1 plain_ticks)) =
     [(''UPDATE'', demo_day + 10 * Hour), (''UPDATE'', demo_day + 10 * Hour),
      (''CLOSE'', demo_day + 10 * Hour), (''UPDATE'', demo_day + 10 * Hour + 1 * Minute)] \<and>
   block_scan False (agg_Timeframe demo_m1) Idle (events_of (run_ticks demo_m1 plain_ticks)) =
     map_option phase_of (state_of (run_ticks demo_m1 plain_ticks)) \<and>
   block_scan True (agg_Timeframe demo_m1) Idle (events_of (run_ticks demo_m1 plain_ticks)) =
     map_option phase_of (state_of (run_ticks demo_m1 plain_ticks))"
proof -
  have p: "0 < agg_Timeframe demo_m1"
    by (simp add: demo_m1_def NewTimeframeAggregator_def Minute_def Second_def)
  have n: "currentCandle demo_m1 = None"
    by (simp add: demo_m1_def NewTimeframeAggregator_def)
  from run_ticks_event_blocks[OF p n, of plain_ticks] plain_ticks_no_skips
  obtain t' evs where
    run: "run_ticks demo_m1 plain_ticks = Inr (t', evs)"
    and a: "block_scan True (agg_Timeframe demo_m1) Idle evs = Some (phase_of t')"
    and b: "block_scan False (agg_Timeframe demo_m1) Idle evs = Some (phase_of t')"
    by blast
  have ev: "events_of (run_ticks demo_m1 plain_ticks) = evs"
    and st: "state_of (run_ticks demo_m1 plain_ticks) = Some t'"
    using run by (simp_all add: events_of_def state_of_def)
  have shape: "map (\<lambda>e. (Status e, StartTime (ev_Candle e))) (events_of (run_ticks demo_m1 plain_ticks)) =
     [(''UPDATE'', demo_day + 10 * Hour), (''UPDATE'', demo_day + 10 * Hour),
      (''CLOSE'', demo_day + 10 * Hour), (''UPDATE'', demo_day + 10 * Hour + 1 * Minute)]"
    by (simp add: events_of_def plain_ticks_def demo_m1_def aggregator_eval demo_clock
          max_f_def min_f_def)
  show ?thesis
    using p n plain_ticks_no_skips shape a b unfolding ev st by simp
qed

section \<open>Properties of the indicator engine\<close>

lemma fold_update_nth:
  "b \<le> length r \<Longrightarrow>
   fold (\<lambda>i res. res[i := g i]) [a..<b] r ! k = (if a \<le> k \<and> k < b then g k else r ! k)"
proof (induction b)
  case 0
  then show ?case by simp
next
  case (Suc b)
  show ?case
  proof (cases "a \<le> b")
    case True
    have len: "length (fold (\<lambda>i res. res[i := g i]) [a..<b] r) = length r"
      by (induction b) simp_all
    show ?thesis using Suc True len by (auto simp: nth_list_update)
  next
    case False
    then show ?thesis by auto
  qed
qed

lemma fold_update_length: "length (fold (\<lambda>i res. res[i := g i]) xs r) = length r"
  by (induction xs arbitrary: r) simp_all

lemma series_nth:
  assumes "0 < period" "period \<le> int (length prices)"
  shows "\<exists>bb. CalculateBollingerBandsSeries prices period deviation = Inr bb \<and>
           length bb = length prices \<and>
           (\<forall>k < length prices. bb ! k =
              (if nat (period - 1) \<le> k
               then CalculateBollingerBands (bands_window prices period k) period deviation
               else zero_bands))"
  using assms
  by (auto simp: CalculateBollingerBandsSeries_def minInt_def Let_def fold_update_nth
        fold_update_length)

lemma StdDev_nonneg: "0 < period \<Longrightarrow> 0 \<le> CalculateStdDev w period m"
proof -
  assume p: "0 < period"
  have "0 \<le> sum_list (map (\<lambda>p. (p - m) * (p - m)) xs)" for xs :: "real list"
    by (rule sum_list_nonneg) auto
  then have "0 \<le> sum_list (map (\<lambda>p. (p - m) * (p - m)) (take (nat period) w)) / real_of_int period"
    using p by simp
  then show ?thesis by (simp add: CalculateStdDev_def Let_def)
qed

lemma bands_lower_le_middle:
  assumes "0 \<le> deviation" "0 < period"
  shows "Lower (CalculateBollingerBands w period deviation)
           \<le> Middle (CalculateBollingerBands w period deviation)"
proof -
  have "0 \<le> deviation * CalculateStdDev w period (CalculateSMA w period)"
    using assms StdDev_nonneg[of period w] by simp
  then show ?thesis by (simp add: CalculateBollingerBands_def zero_bands_def Let_def)
qed

lemma sum_list_le_const:
  "(\<And>x. x \<in> set xs \<Longrightarrow> x \<le> (c::real)) \<Longrightarrow> sum_list xs \<le> real (length xs) * c"
proof (induction xs)
  case Nil
  show ?case by simp
next
  case (Cons a xs)
  have "a \<le> c" using Cons.prems by simp
  moreover have "sum_list xs \<le> real (length xs) * c" using Cons by simp
  ultimately show ?case by (simp add: algebra_simps)
qed

lemma SMA_le:
  assumes "0 < period" "length w = nat period" "\<And>x. x \<in> set w \<Longrightarrow> x \<le> c"
  shows "CalculateSMA w period \<le> c"
proof -
  have "sum_list w \<le> real (length w) * c" using assms(3) by (rule sum_list_le_const)
  then have "sum_list w \<le> real_of_int period * c" using assms by simp
  then have "sum_list w / real_of_int period \<le> c"
    using assms(1) by (simp add: pos_divide_le_eq mult.commute)
  then show ?thesis using assms by (simp add: CalculateSMA_def)
qed

lemma scenario_sorted: "sorted scenario_closes"
  by (simp add: scenario_closes_def)

lemma scenario_length: "length scenario_closes = 20"
  by (simp add: scenario_closes_def)

lemma scenario_mono: "i \<le> j \<Longrightarrow> j < 20 \<Longrightarrow> scenario_closes ! i \<le> scenario_closes ! j"
  using sorted_nth_mono[OF scenario_sorted, of i j] by (simp add: scenario_length)

lemma scenario_window_le:
  assumes "k < 20" "x \<in> set (bands_window scenario_closes 8 k)"
  shows "x \<le> scenario_closes ! k"
proof -
  from assms(2) obtain j where "x = scenario_closes ! (k - j)"
    by (auto simp: bands_window_def)
  then show ?thesis using scenario_mono[of "k - j" k] assms(1) by simp
qed

lemma scenario_lower_le:
  assumes "k < 20"
  shows "Lower (CalculateBollingerBands (bands_window scenario_closes 8 k) 8 1) \<le> scenario_closes ! k"
proof -
  have len: "length (bands_window scenario_closes 8 k) = nat 8"
    by (simp add: bands_window_def)
  have "Middle (CalculateBollingerBands (bands_window scenario_closes 8 k) 8 1)
          = CalculateSMA (bands_window scenario_closes 8 k) 8"
    using len by (simp add: CalculateBollingerBands_def Let_def)
  moreover have "CalculateSMA (bands_window scenario_closes 8 k) 8 \<le> scenario_closes ! k"
    using SMA_le[of 8 "bands_window scenario_closes 8 k" "scenario_closes ! k"] len
          scenario_window_le[OF assms] by simp
  ultimately show ?thesis
    using bands_lower_le_middle[of 1 8 "bands_window scenario_closes 8 k"] by simp
qed

lemma ga_step_uptrend:
  assumes len: "length (upperBand s) = n" "length (lowerBand s) = n" "length (upperStop s) = n"
               "length (lowerStop s) = n" "length (results s) = n"
      and k: "0 < k" "k < n" "int k \<noteq> Length params - 1"
      and par: "MoneyRisk params = 1" "param_Signal params = 1"
      and tr: "trend s = 1"
      and lbprev: "lowerBand s ! (k - 1) \<le> closes ! k"
      and lbnew: "Lower (bb ! k) \<le> closes ! k"
      and stop: "UpStop (results s ! (k - 1)) = lowerStop s ! (k - 1)" "100 \<le> lowerStop s ! (k - 1)"
  shows "trend (ga_step params closes bb k s) = 1 \<and>
         length (upperBand (ga_step params closes bb k s)) = n \<and>
         length (lowerBand (ga_step params closes bb k s)) = n \<and>
         length (upperStop (ga_step params closes bb k s)) = n \<and>
         length (lowerStop (ga_step params closes bb k s)) = n \<and>
         length (results (ga_step params closes bb k s)) = n \<and>
         lowerBand (ga_step params closes bb k s) ! k \<le> closes ! k \<and>
         100 \<le> lowerStop (ga_step params closes bb k s) ! k \<and>
         UpStop (results (ga_step params closes bb k s) ! k) = lowerStop (ga_step params closes bb k s) ! k \<and>
         Trend (results (ga_step params closes bb k s) ! k) = 1 \<and>
         \<not> IsSignal (results (ga_step params closes bb k s) ! k) \<and>
         (\<forall>j. j \<noteq> k \<longrightarrow> results (ga_step params closes bb k s) ! j = results s ! j)"
proof -
  have km: "k - 1 < n" "k - 1 \<noteq> k" using k by auto
  have notdown: "\<not> closes ! k < lowerBand s ! (k - 1)" using lbprev by simp
  have prevstop: "UpStop (results s ! (k - 1)) \<noteq> - 1" using stop by simp
  show ?thesis
    using len k km par tr notdown lbnew lbprev stop prevstop
    by (simp add: ga_step_def Let_def nth_list_update updateBuffers_def updateUpTrendBuffers_def
          clearDownTrendBuffers_def)
qed

lemma window7: "bands_window scenario_closes 8 7 = [100, 100, 100, 100, 100, 100, 100, 100]"
  by (simp add: bands_window_def scenario_closes_def upt_conv_Cons)

lemma bands7:
  "CalculateBollingerBands (bands_window scenario_closes 8 7) 8 1 = \<lparr>Upper = 100, Middle = 100, Lower = 100\<rparr>"
  unfolding window7
  by (simp add: CalculateBollingerBands_def CalculateSMA_def CalculateStdDev_def Let_def)

lemma scenario_series:
  "\<exists>bb. CalculateBollingerBandsSeries scenario_closes 8 1 = Inr bb \<and> length bb = 20 \<and>
         bb ! 7 = \<lparr>Upper = 100, Middle = 100, Lower = 100\<rparr> \<and>
         (\<forall>k<20. Lower (bb ! k) \<le> scenario_closes ! k)"
proof -
  from series_nth[of 8 scenario_closes 1] obtain bb where
    bb: "CalculateBollingerBandsSeries scenario_closes 8 1 = Inr bb" "length bb = 20"
        "\<forall>k<20. bb ! k = (if nat (8 - 1) \<le> k
                            then CalculateBollingerBands (bands_window scenario_closes 8 k) 8 1
                            else zero_bands)"
    by (auto simp: scenario_length)
  have b7: "bb ! 7 = \<lparr>Upper = 100, Middle = 100, Lower = 100\<rparr>"
    using bb(3) bands7 by simp
  have low: "Lower (bb ! k) \<le> scenario_closes ! k" if "k < 20" for k
  proof (cases "7 \<le> k")
    case True
    then show ?thesis using bb(3) that scenario_lower_le[OF that] by simp
  next
    case False
    have "0 \<le> scenario_closes ! 0" by (simp add: scenario_closes_def)
    then have "0 \<le> scenario_closes ! k" using scenario_mono[of 0 k] that by simp
    then show ?thesis using False bb(3) that by (simp add: zero_bands_def)
  qed
  show ?thesis using bb(1,2) b7 low by blast
qed

lemma ga_first_round:
  assumes "bb ! 7 = \<lparr>Upper = 100, Middle = 100, Lower = 100\<rparr>"
  shows "uptrend_inv 7 (ga_step default_params scenario_closes bb 7 (ga_init 20))"
  using assms
  by (simp add: uptrend_inv_def ga_step_def ga_init_def Let_def default_params_def
        scenario_closes_def nth_list_update updateBuffers_def updateUpTrendBuffers_def
        clearDownTrendBuffers_def empty_result_def first_signal_def)

lemma ga_next_round:
  assumes inv: "uptrend_inv i s" and i: "7 \<le> i" "Suc i < 20"
      and low: "Lower (bb ! Suc i) \<le> scenario_closes ! Suc i"
  shows "uptrend_inv (Suc i) (ga_step default_params scenario_closes bb (Suc i) s)"
proof -
  have mono: "scenario_closes ! i \<le> scenario_closes ! Suc i"
    using scenario_mono[of i "Suc i"] i by simp
  have prev: "lowerBand s ! (Suc i - 1) \<le> scenario_closes ! Suc i"
    using inv mono by (simp add: uptrend_inv_def)
  have st: "UpStop (results s ! (Suc i - 1)) = lowerStop s ! (Suc i - 1)" "100 \<le> lowerStop s ! (Suc i - 1)"
    using inv by (simp_all add: uptrend_inv_def)
  have idx: "int (Suc i) \<noteq> Length default_params - 1"
    using i by (simp add: default_params_def)
  have par: "MoneyRisk default_params = 1" "param_Signal default_params = 1"
    by (simp_all add: default_params_def)
  have lens: "length (upperBand s) = 20" "length (lowerBand s) = 20" "length (upperStop s) = 20"
             "length (lowerStop s) = 20" "length (results s) = 20" and tr: "trend s = 1"
    using inv by (simp_all add: uptrend_inv_def)
  note step = ga_step_uptrend[OF lens _ i(2) idx par tr prev low st]
  have keep: "results (ga_step default_params scenario_closes bb (Suc i) s) ! j = results s ! j"
    if "j \<noteq> Suc i" for j
    using step that by simp
  have seven: "results (ga_step default_params scenario_closes bb (Suc i) s) ! 7 = first_signal"
    using keep[of 7] i inv by (simp add: uptrend_inv_def)
  have early: "\<forall>j<7. results (ga_step default_params scenario_closes bb (Suc i) s) ! j = empty_result"
    using keep i inv by (simp add: uptrend_inv_def)
  have later: "Trend (results (ga_step default_params scenario_closes bb (Suc i) s) ! j) = 1 \<and>
               \<not> IsSignal (results (ga_step default_params scenario_closes bb (Suc i) s) ! j)"
    if "7 < j" "j \<le> Suc i" for j
  proof (cases "j = Suc i")
    case True
    then show ?thesis using step by simp
  next
    case False
    then have "j \<le> i" using that by simp
    then show ?thesis using keep[OF False] inv that(1) by (simp add: uptrend_inv_def)
  qed
  show ?thesis
    unfolding uptrend_inv_def
    using step seven early later by simp
qed

lemma ga_fold_inv:
  assumes bb7: "bb ! 7 = \<lparr>Upper = 100, Middle = 100, Lower = 100\<rparr>"
      and low: "\<forall>k<20. Lower (bb ! k) \<le> scenario_closes ! k"
  shows "7 \<le> i \<Longrightarrow> i < 20 \<Longrightarrow>
         uptrend_inv i (fold (ga_step default_params scenario_closes bb) [7..<Suc i] (ga_init 20))"
proof (induction i rule: nat_induct_at_least)
  case base
  have "[7..<Suc 7] = [7]" by simp
  then show ?case using ga_first_round[OF bb7] by simp
next
  case (Suc i)
  have step: "fold (ga_step default_params scenario_closes bb) [7..<Suc (Suc i)] (ga_init 20)
        = ga_step default_params scenario_closes bb (Suc i)
            (fold (ga_step default_params scenario_closes bb) [7..<Suc i] (ga_init 20))"
    using Suc.hyps by simp
  have prev: "uptrend_inv i (fold (ga_step default_params scenario_closes bb) [7..<Suc i] (ga_init 20))"
    using Suc by simp
  have l: "Lower (bb ! Suc i) \<le> scenario_closes ! Suc i" using low Suc.prems by simp
  show ?case unfolding step using ga_next_round[OF prev Suc.hyps Suc.prems l] .
qed

lemma scenario_run:
  "\<exists>rs. CalculateGreenArrow scenario_bars default_params = Inr rs \<and> length rs = 20 \<and>
     (\<forall>i<7. rs ! i = empty_result) \<and>
     rs ! 7 = first_signal \<and>
     (\<forall>i. 7 < i \<and> i < 20 \<longrightarrow> Trend (rs ! i) = 1 \<and> \<not> IsSignal (rs ! i))"
proof -
  from scenario_series obtain bb where
    bb: "CalculateBollingerBandsSeries scenario_closes 8 1 = Inr bb"
        "bb ! 7 = \<lparr>Upper = 100, Middle = 100, Lower = 100\<rparr>"
        "\<forall>k<20. Lower (bb ! k) \<le> scenario_closes ! k"
    by blast
  have closes: "map ind_Close scenario_bars = scenario_closes"
    by (simp add: scenario_bars_def flat_bar_def scenario_closes_def)
  have len: "length scenario_bars = 20"
    by (simp add: scenario_bars_def scenario_length)
  define rs where "rs = results (fold (ga_step default_params scenario_closes bb) [7..<20] (ga_init 20))"
  have run: "CalculateGreenArrow scenario_bars default_params = Inr rs"
    using bb(1)
    by (simp add: CalculateGreenArrow_def minInt_def Let_def len closes default_params_def rs_def)
  have "uptrend_inv 19 (fold (ga_step default_params scenario_closes bb) [7..<Suc 19] (ga_init 20))"
    by (rule ga_fold_inv[OF bb(2,3)]) simp_all
  then have inv: "uptrend_inv 19 (fold (ga_step default_params scenario_closes bb) [7..<20] (ga_init 20))"
    by simp
  show ?thesis
    using run inv unfolding uptrend_inv_def rs_def[symmetric] by auto
qed

lemma spec_ub_flat:
  "spec_ub scenario_closes 8 1 6 = None \<and> spec_ub scenario_closes 8 1 7 = Some 100 \<and>
   spec_ub scenario_closes 8 1 8 = Some 100 \<and> spec_ub scenario_closes 8 1 9 = Some 100"
  by (simp add: spec_ub_def scenario_closes_def upt_conv_Cons Let_def)

text \<open>
  Claim C4, as the code has it.  On the twenty bars of the scenario, with L = 8, D = 1,
  M = 1.0, S = 1, Ln = 1, the engine returns twenty samples.  Bars 0 to 6 carry trend 0
  and the sentinels.  The trend turns to +1 with \<open>is_signal\<close> on bar 7, the first bar the
  loop computes: the band slot of bar 6 was never computed and holds the initial 0, and
  the close 100 exceeds it.  On bar 7 \<open>up_signal\<close>, \<open>up_stop\<close> and \<open>up_line\<close> are 100, which is
  the lower stop level \<open>lb - k * w\<close> of that bar, and the field \<open>down_stop\<close> is the
  sentinel -1.  Every later bar, 8 to 19, has trend +1 and no signal.
\<close>

theorem GreenArrow_scenario:
  "\<exists>rs. CalculateGreenArrow scenario_bars default_params = Inr rs \<and> length rs = 20 \<and>
     (\<forall>i<7. rs ! i = empty_result) \<and>
     rs ! 7 = first_signal \<and>
     UpSignal (rs ! 7) =
       Lower (CalculateBollingerBands (bands_window scenario_closes 8 7) 8 1)
         - (MoneyRisk default_params - 1) / 2 *
           (Upper (CalculateBollingerBands (bands_window scenario_closes 8 7) 8 1)
              - Lower (CalculateBollingerBands (bands_window scenario_closes 8 7) 8 1)) \<and>
     (\<forall>i. 7 < i \<and> i < 20 \<longrightarrow> Trend (rs ! i) = 1 \<and> \<not> IsSignal (rs ! i))"
proof -
  from scenario_run obtain rs where
    rs: "CalculateGreenArrow scenario_bars default_params = Inr rs" "length rs = 20"
        "\<forall>i<7. rs ! i = empty_result" "rs ! 7 = first_signal"
        "\<forall>i. 7 < i \<and> i < 20 \<longrightarrow> Trend (rs ! i) = 1 \<and> \<not> IsSignal (rs ! i)"
    by blast
  have "UpSignal (rs ! 7) =
       Lower (CalculateBollingerBands (bands_window scenario_closes 8 7) 8 1)
         - (MoneyRisk default_params - 1) / 2 *
           (Upper (CalculateBollingerBands (bands_window scenario_closes 8 7) 8 1)
              - Lower (CalculateBollingerBands (bands_window scenario_closes 8 7) 8 1))"
    unfolding bands7 rs(4) by (simp add: first_signal_def default_params_def)
  then show ?thesis using rs by blast
qed

theorem GreenArrow_scenario_witness:
  "length (ga_results (CalculateGreenArrow scenario_bars default_params)) = 20 \<and>
   Trend (ga_results (CalculateGreenArrow scenario_bars default_params) ! 3) = 0 \<and>
   ga_results (CalculateGreenArrow scenario_bars default_params) ! 7 = first_signal \<and>
   Trend (ga_results (CalculateGreenArrow scenario_bars default_params) ! 12) = 1 \<and>
   \<not> IsSignal (ga_results (CalculateGreenArrow scenario_bars default_params) ! 12)"
proof -
  from GreenArrow_scenario obtain rs where
    rs: "CalculateGreenArrow scenario_bars default_params = Inr rs" "length rs = 20"
        "\<forall>i<7. rs ! i = empty_result" "rs ! 7 = first_signal"
        "\<forall>i. 7 < i \<and> i < 20 \<longrightarrow> Trend (rs ! i) = 1 \<and> \<not> IsSignal (rs ! i)"
    by blast
  have three: "rs ! 3 = empty_result" using rs(3) by simp
  have twelve: "Trend (rs ! 12) = 1 \<and> \<not> IsSignal (rs ! 12)" using rs(5) by simp
  show ?thesis
    using rs(2,4) three twelve by (simp add: ga_results_def rs(1) empty_result_def)
qed

text \<open>
  By the spec's bands, which exist from bar 7 on and equal 100 on bars 7, 8 and 9, the first
  bar whose close exceeds the previous bar's upper band is bar 10.  The claim as written
  expects trend 0 before that bar and the signal on it.  The engine has trend +1 already on
  bars 7 to 9, has signalled on bar 7, and does not signal on bar 10; and on the signal
  bar the field \<open>down_stop\<close> is -1, not the value of \<open>up_signal\<close>.
\<close>

theorem GreenArrow_first_bar_signal_counterexample:
  "spec_ub scenario_closes 8 1 6 = None \<and>
   spec_ub scenario_closes 8 1 7 = Some 100 \<and> \<not> scenario_closes ! 8 > 100 \<and>
   spec_ub scenario_closes 8 1 8 = Some 100 \<and> \<not> scenario_closes ! 9 > 100 \<and>
   spec_ub scenario_closes 8 1 9 = Some 100 \<and> scenario_closes ! 10 > 100 \<and>
   Trend (ga_results (CalculateGreenArrow scenario_bars default_params) ! 7) = 1 \<and>
   Trend (ga_results (CalculateGreenArrow scenario_bars default_params) ! 9) = 1 \<and>
   IsSignal (ga_results (CalculateGreenArrow scenario_bars default_params) ! 7) \<and>
   \<not> IsSignal (ga_results (CalculateGreenArrow scenario_bars default_params) ! 10) \<and>
   UpSignal (ga_results (CalculateGreenArrow scenario_bars default_params) ! 7) = 100 \<and>
   DownStop (ga_results (CalculateGreenArrow scenario_bars default_params) ! 7) = - 1"
proof -
  from scenario_run obtain rs where
    rs: "CalculateGreenArrow scenario_bars default_params = Inr rs"
        "rs ! 7 = first_signal"
        "\<forall>i. 7 < i \<and> i < 20 \<longrightarrow> Trend (rs ! i) = 1 \<and> \<not> IsSignal (rs ! i)"
    by blast
  have nine: "Trend (rs ! 9) = 1" and ten: "\<not> IsSignal (rs ! 10)" using rs(3) by simp_all
  have closes: "\<not> scenario_closes ! 8 > 100" "\<not> scenario_closes ! 9 > 100" "scenario_closes ! 10 > 100"
    by (simp_all add: scenario_closes_def)
  show ?thesis
    using spec_ub_flat closes nine ten rs(2)
    by (simp add: ga_results_def rs(1) first_signal_def)
qed

section \<open>Properties of the buffer manager and the hub\<close>

lemma Add_size:
  "length (candles cb) \<le> maxSize cb \<Longrightarrow>
   length (candles (Add cb c)) \<le> maxSize (Add cb c) \<and> maxSize (Add cb c) = maxSize cb"
  by (auto simp: Add_def Let_def)

lemma Update_size:
  "0 < maxSize cb \<Longrightarrow> length (candles cb) \<le> maxSize cb \<Longrightarrow>
   length (candles (Update cb c)) \<le> maxSize (Update cb c) \<and> maxSize (Update cb c) = maxSize cb"
  by (auto simp: Update_def)

lemma load_rows_length: "length (load_rows rows lastTime kept) \<le> length kept + length rows"
proof (induction rows arbitrary: lastTime kept)
  case Nil
  show ?case by simp
next
  case (Cons c rest)
  have skip: "length (load_rows rest lastTime kept) \<le> length kept + length (c # rest)"
    using Cons.IH[of lastTime kept] by simp
  have keep: "length (load_rows rest (cd_Time c) (kept @ [c])) \<le> length kept + length (c # rest)"
    using Cons.IH[of "cd_Time c" "kept @ [c]"] by simp
  show ?case
    using skip keep by (simp only: load_rows.simps split: if_splits) simp
qed

lemma loadFromDB_size:
  "length (candles b) \<le> mpm_maxSize m \<Longrightarrow> maxSize b = mpm_maxSize m \<Longrightarrow>
   length (candles (loadFromDB m key b)) \<le> mpm_maxSize m \<and> maxSize (loadFromDB m key b) = mpm_maxSize m"
proof -
  assume b: "length (candles b) \<le> mpm_maxSize m" "maxSize b = mpm_maxSize m"
  have "length (load_rows (rev (take (mpm_maxSize m) rows)) 0 []) \<le> mpm_maxSize m" for rows
    using load_rows_length[of "rev (take (mpm_maxSize m) rows)" 0 "[]"] by simp
  then show ?thesis
    using b by (auto simp: loadFromDB_def Let_def split: option.splits)
qed

lemma GetOrCreateBuffer_sized:
  assumes "sized m" "GetOrCreateBuffer m key = (m', b)"
  shows "sized m' \<and> buffers m' key = Some b \<and> mpm_maxSize m' = mpm_maxSize m \<and>
         length (candles b) \<le> maxSize b \<and> maxSize b = mpm_maxSize m"
proof (cases "buffers m key")
  case (Some b0)
  then show ?thesis using assms by (fastforce simp: GetOrCreateBuffer_def sized_def)
next
  case None
  let ?n = "NewCandleBuffer (mpm_maxSize m)"
  have n: "length (candles ?n) \<le> mpm_maxSize m" "maxSize ?n = mpm_maxSize m"
    by (simp_all add: NewCandleBuffer_def)
  have l: "length (candles (loadFromDB m key ?n)) \<le> mpm_maxSize m"
          "maxSize (loadFromDB m key ?n) = mpm_maxSize m"
    using loadFromDB_size[OF n] by simp_all
  show ?thesis
    using assms None n l
    by (auto simp: GetOrCreateBuffer_def sized_def Let_def split: if_splits)
qed

lemma AddCandle_sized:
  assumes "sized m" "0 < mpm_maxSize m"
  shows "sized (AddCandle m key c isNew) \<and> mpm_maxSize (AddCandle m key c isNew) = mpm_maxSize m"
proof -
  obtain m' b where g: "GetOrCreateBuffer m key = (m', b)" by (cases "GetOrCreateBuffer m key")
  note s = GetOrCreateBuffer_sized[OF assms(1) g]
  have pos: "0 < maxSize b" using s assms(2) by simp
  have a: "length (candles (Add b c)) \<le> maxSize (Add b c) \<and> maxSize (Add b c) = maxSize b"
    using Add_size s by blast
  have u: "length (candles (Update b c)) \<le> maxSize (Update b c) \<and> maxSize (Update b c) = maxSize b"
    using Update_size pos s by blast
  have "sized (m'\<lparr>buffers := (buffers m')(key \<mapsto> x)\<rparr>)"
    if "length (candles x) \<le> maxSize x \<and> maxSize x = maxSize b" for x
    using s that by (fastforce simp: sized_def)
  then show ?thesis
    using g s a u by (auto simp: AddCandle_def)
qed

text \<open>
  The warm-up path checks the times: what \<open>loadFromDB\<close> puts into a buffer is strictly
  ordered by start time (no row carrying the zero time, which the loop reads as ``no bar
  kept yet'').  The live path, \<open>AddCandle\<close>, checks the prices only.
\<close>

lemma sorted_below_last:
  "sorted_wrt (<) (ts :: int list) \<Longrightarrow> x \<in> set ts \<Longrightarrow> x \<le> last ts"
proof (induction ts)
  case Nil
  then show ?case by simp
next
  case (Cons t ts)
  show ?case
  proof (cases "ts = []")
    case True
    with Cons.prems show ?thesis by simp
  next
    case False
    then have l: "last ts \<in> set ts" by simp
    show ?thesis
    proof (cases "x = t")
      case True
      then have "x < last ts" using Cons.prems(1) l by simp
      then show ?thesis using False by simp
    next
      case False
      then have "x \<in> set ts" using Cons.prems(2) by simp
      then show ?thesis using Cons.IH Cons.prems(1) \<open>ts \<noteq> []\<close> by simp
    qed
  qed
qed

lemma load_rows_ordered:
  assumes "strictly_ordered kept" "kept \<noteq> [] \<longrightarrow> lastTime = cd_Time (last kept)"
          "kept = [] \<longrightarrow> lastTime = 0" "\<forall>c\<in>set rows \<union> set kept. cd_Time c \<noteq> 0"
  shows "strictly_ordered (load_rows rows lastTime kept)"
  using assms
proof (induction rows arbitrary: lastTime kept)
  case Nil
  then show ?case by simp
next
  case (Cons c rest)
  have skip: "strictly_ordered (load_rows rest lastTime kept)"
    using Cons.IH[of kept lastTime] Cons.prems by simp
  have keep: "strictly_ordered (load_rows rest (cd_Time c) (kept @ [c]))"
    if ok: "lastTime = 0 \<or> cd_Time c > lastTime"
  proof -
    have below: "\<forall>x\<in>set kept. cd_Time x < cd_Time c"
    proof (cases "kept = []")
      case True
      then show ?thesis by simp
    next
      case False
      then have lt: "lastTime = cd_Time (last kept)" using Cons.prems(2) by simp
      have "last kept \<in> set kept" using False by simp
      then have "lastTime \<noteq> 0" using lt Cons.prems(4) by auto
      then have gt: "cd_Time (last kept) < cd_Time c" using ok lt by simp
      have "cd_Time x \<le> cd_Time (last kept)" if "x \<in> set kept" for x
        using sorted_below_last[of "map cd_Time kept" "cd_Time x"] Cons.prems(1) that False
        by (simp add: strictly_ordered_def last_map)
      then show ?thesis using gt by fastforce
    qed
    have so: "strictly_ordered (kept @ [c])"
      using Cons.prems(1) below by (simp add: strictly_ordered_def sorted_wrt_append)
    show ?thesis
      using Cons.IH[of "kept @ [c]" "cd_Time c"] so Cons.prems(4) by simp
  qed
  show ?case
    using skip keep by (simp only: load_rows.simps split: if_splits) auto
qed

lemma loadFromDB_ordered:
  assumes "mpm_db m = Some query" "query symbol timeframe = Some rows" "\<forall>c\<in>set rows. cd_Time c \<noteq> 0"
          "CHR '':'' \<notin> set symbol" "CHR '':'' \<notin> set timeframe"
  shows "strictly_ordered (candles (loadFromDB m (symbol @ '':'' @ timeframe) b))"
proof -
  have plain: "split_colon cur s = [cur @ s]" if "CHR '':'' \<notin> set s" for cur s
    using that by (induction s arbitrary: cur) auto
  have sep: "split_colon cur (s @ CHR '':'' # rest) = (cur @ s) # split_colon [] rest"
    if "CHR '':'' \<notin> set s" for cur s rest
    using that by (induction s arbitrary: cur) auto
  have parts: "split_colon [] (symbol @ '':'' @ timeframe) = [symbol, timeframe]"
    using sep[OF assms(4), of "[]" timeframe] plain[OF assms(5), of "[]"] by simp
  have "\<forall>c\<in>set (rev (take (mpm_maxSize m) rows)) \<union> set []. cd_Time c \<noteq> 0"
    using assms(3) by (auto dest: in_set_takeD)
  then have "strictly_ordered (load_rows (rev (take (mpm_maxSize m) rows)) 0 [])"
    by (intro load_rows_ordered) (simp_all add: strictly_ordered_def)
  then show ?thesis
    using assms(1,2) parts by (simp add: loadFromDB_def Let_def)
qed

lemma split_colon_plain: "CHR '':'' \<notin> set s \<Longrightarrow> split_colon cur s = [cur @ s]"
  by (induction s arbitrary: cur) auto

lemma split_colon_sep:
  "CHR '':'' \<notin> set s \<Longrightarrow> split_colon cur (s @ CHR '':'' # rest) = (cur @ s) # split_colon [] rest"
  by (induction s arbitrary: cur) auto

lemma splitChannel_kline:
  assumes "CHR '':'' \<notin> set symbol" "CHR '':'' \<notin> set timeframe"
  shows "splitChannel (''kline:'' @ symbol @ '':'' @ timeframe) = [''kline'', symbol, timeframe]"
proof -
  have k: "CHR '':'' \<notin> set ''kline''" by simp
  have "''kline:'' @ symbol @ '':'' @ timeframe = ''kline'' @ CHR '':'' # (symbol @ CHR '':'' # timeframe)"
    by simp
  then show ?thesis
    unfolding splitChannel_def
    using split_colon_sep[OF k, of "[]" "symbol @ CHR '':'' # timeframe"]
          split_colon_sep[OF assms(1), of "[]" timeframe] split_colon_plain[OF assms(2), of "[]"]
    by simp
qed

text \<open>
  Claim C7, as the code has it.  Let a client subscribe to \<open>kline:symbol:timeframe\<close>, symbol
  and timeframe free of colons; \<open>Subscribe\<close> starts \<open>sendSnapshot\<close>, which runs on the hub
  as it then is.  If the buffer of the key is not empty and the client's outbound queue has
  room, exactly one snapshot message is queued for that client, and its data is the
  buffer's sequence of bars as it stands, oldest first (at most N bars when the buffers
  respect their capacity).  If the buffer is empty or missing, nothing is sent.  If the
  queue is full, the snapshot is dropped and nothing is sent.  No other client's queue and
  no buffer changes.
\<close>

theorem sendSnapshot_delivers_buffer:
  assumes "CHR '':'' \<notin> set symbol" "CHR '':'' \<notin> set timeframe"
  shows "(GetCandles (indicatorManager h) (symbol @ '':'' @ timeframe) \<noteq> [] \<and>
          length (Send (client_at h client)) < send_cap (client_at h client) \<longrightarrow>
            Send (client_at (sendSnapshot h client (''kline:'' @ symbol @ '':'' @ timeframe)) client) =
              Send (client_at h client) @
                [\<lparr>msg_Type = ''snapshot'', msg_Symbol = symbol, msg_Timeframe = timeframe,
                  msg_Data = GetCandles (indicatorManager h) (symbol @ '':'' @ timeframe)\<rparr>]) \<and>
         (GetCandles (indicatorManager h) (symbol @ '':'' @ timeframe) = [] \<longrightarrow>
            sendSnapshot h client (''kline:'' @ symbol @ '':'' @ timeframe) = h) \<and>
         (\<not> length (Send (client_at h client)) < send_cap (client_at h client) \<longrightarrow>
            Send (client_at (sendSnapshot h client (''kline:'' @ symbol @ '':'' @ timeframe)) client) =
              Send (client_at h client)) \<and>
         (\<forall>other. other \<noteq> client \<longrightarrow>
            client_at (sendSnapshot h client (''kline:'' @ symbol @ '':'' @ timeframe)) other =
              client_at h other) \<and>
         indicatorManager (sendSnapshot h client (''kline:'' @ symbol @ '':'' @ timeframe)) =
           indicatorManager h \<and>
         (sized (indicatorManager h) \<longrightarrow>
            length (GetCandles (indicatorManager h) (symbol @ '':'' @ timeframe))
              \<le> mpm_maxSize (indicatorManager h))"
proof -
  define ch where "ch = ''kline:'' @ symbol @ '':'' @ timeframe"
  define key where "key = symbol @ '':'' @ timeframe"
  have parts: "splitChannel ch = [''kline'', symbol, timeframe]"
    unfolding ch_def using assms by (rule splitChannel_kline)
  have bound: "length (GetCandles m k) \<le> mpm_maxSize m" if "sized m" for m k
    using that by (auto simp: GetCandles_def GetAll_def sized_def split: option.splits)
  have run: "sendSnapshot h client ch =
          (if GetCandles (indicatorManager h) key = [] then h
           else h\<lparr>client_at := (client_at h)(client := try_send (client_at h client)
                   \<lparr>msg_Type = ''snapshot'', msg_Symbol = symbol, msg_Timeframe = timeframe,
                     msg_Data = GetCandles (indicatorManager h) key\<rparr>)\<rparr>)"
    by (simp add: sendSnapshot_def parts Let_def key_def)
  have main:
    "(GetCandles (indicatorManager h) key \<noteq> [] \<and>
          length (Send (client_at h client)) < send_cap (client_at h client) \<longrightarrow>
            Send (client_at (sendSnapshot h client ch) client) =
              Send (client_at h client) @
                [\<lparr>msg_Type = ''snapshot'', msg_Symbol = symbol, msg_Timeframe = timeframe,
                  msg_Data = GetCandles (indicatorManager h) key\<rparr>]) \<and>
         (GetCandles (indicatorManager h) key = [] \<longrightarrow> sendSnapshot h client ch = h) \<and>
         (\<not> length (Send (client_at h client)) < send_cap (client_at h client) \<longrightarrow>
            Send (client_at (sendSnapshot h client ch) client) = Send (client_at h client)) \<and>
         (\<forall>other. other \<noteq> client \<longrightarrow>
            client_at (sendSnapshot h client ch) other = client_at h other) \<and>
         indicatorManager (sendSnapshot h client ch) = indicatorManager h \<and>
         (sized (indicatorManager h) \<longrightarrow>
            length (GetCandles (indicatorManager h) key) \<le> mpm_maxSize (indicatorManager h))"
    unfolding run
    using bound[of "indicatorManager h" key]
    by (simp add: try_send_def)
  show ?thesis
    using main unfolding ch_def key_def .
qed

lemmas hub_eval = sendSnapshot_def Subscribe_snapshot_def Subscribe_def splitChannel_def
  GetCandles_def GetAll_def try_send_def AddCandle_def GetOrCreateBuffer_def NewCandleBuffer_def
  NewMultiPeriodManager_def Add_def Update_def Let_def

lemma demo_hub_buffer:
  "GetCandles (indicatorManager demo_hub) ''XAUUSD:M1'' = [demo_candle 60, demo_candle 120]"
  by (simp add: demo_hub_def demo_mpm_def demo_candle_def hub_eval)

lemma demo_mpm_sized: "sized demo_mpm"
  by (simp add: sized_def demo_mpm_def NewMultiPeriodManager_def)

theorem sendSnapshot_delivers_buffer_witness:
  "CHR '':'' \<notin> set ''XAUUSD'' \<and> CHR '':'' \<notin> set ''M1'' \<and>
   GetCandles (indicatorManager demo_hub) ''XAUUSD:M1'' = [demo_candle 60, demo_candle 120] \<and>
   length (Send (client_at demo_hub 1)) < send_cap (client_at demo_hub 1) \<and>
   Send (client_at (sendSnapshot demo_hub 1 ''kline:XAUUSD:M1'') 1) =
     [\<lparr>msg_Type = ''snapshot'', msg_Symbol = ''XAUUSD'', msg_Timeframe = ''M1'',
       msg_Data = [demo_candle 60, demo_candle 120]\<rparr>] \<and>
   Subscribe_snapshot demo_hub 1 ''kline:XAUUSD:M1'' =
     sendSnapshot (Subscribe demo_hub 1 ''kline:XAUUSD:M1'') 1 ''kline:XAUUSD:M1''"
proof -
  have a: "CHR '':'' \<notin> set ''XAUUSD''" and b: "CHR '':'' \<notin> set ''M1''" by simp_all
  have room: "length (Send (client_at demo_hub 1)) < send_cap (client_at demo_hub 1)"
    by (simp add: demo_hub_def idle_client_def)
  have empty: "Send (client_at demo_hub 1) = []"
    by (simp add: demo_hub_def idle_client_def)
  from sendSnapshot_delivers_buffer[OF a b, of demo_hub 1]
  show ?thesis
    using room empty demo_hub_buffer by (simp add: Subscribe_snapshot_def)
qed

text \<open>
  The claim as written promises the snapshot for every subscribe to a non-empty buffer.
  Client 2 below has 256 messages waiting in a queue of capacity 256; it subscribes to a
  buffer of two bars and gets no snapshot.
\<close>

theorem sendSnapshot_full_queue_counterexample:
  "GetCandles (indicatorManager demo_hub) ''XAUUSD:M1'' = [demo_candle 60, demo_candle 120] \<and>
   Subscriptions (Subscribe_snapshot demo_hub 2 ''kline:XAUUSD:M1'') ''kline:XAUUSD:M1'' = Some {2} \<and>
   length (Send (client_at demo_hub 2)) = 256 \<and>
   Send (client_at (Subscribe_snapshot demo_hub 2 ''kline:XAUUSD:M1'') 2) = Send (client_at demo_hub 2) \<and>
   Subscribe_snapshot demo_hub 2 ''kline:XAUUSD:M1'' = Subscribe demo_hub 2 ''kline:XAUUSD:M1''"
proof -
  have buf: "GetCandles (indicatorManager (Subscribe demo_hub 2 ''kline:XAUUSD:M1'')) ''XAUUSD:M1''
               = [demo_candle 60, demo_candle 120]"
    using demo_hub_buffer by (simp add: Subscribe_def)
  have full: "length (Send (client_at demo_hub 2)) = 256"
    by (simp add: demo_hub_def busy_client_def)
  have same: "client_at (Subscribe demo_hub 2 ''kline:XAUUSD:M1'') = client_at demo_hub"
    by (simp add: Subscribe_def)
  have cap: "send_cap (client_at demo_hub 2) = 256"
    by (simp add: demo_hub_def busy_client_def)
  have run: "Subscribe_snapshot demo_hub 2 ''kline:XAUUSD:M1'' = Subscribe demo_hub 2 ''kline:XAUUSD:M1''"
    unfolding Subscribe_snapshot_def
    by (simp add: sendSnapshot_def splitChannel_def Let_def buf try_send_def same full cap)
  have sub: "Subscriptions (Subscribe demo_hub 2 ''kline:XAUUSD:M1'') ''kline:XAUUSD:M1'' = Some {2}"
    by (simp add: Subscribe_def demo_hub_def)
  show ?thesis
    using demo_hub_buffer full sub unfolding run same by simp
qed

lemma plain_ticks_events:
  "events_of (run_ticks demo_m1 plain_ticks) =
     [\<lparr>Status = ''UPDATE'',
       ev_Candle = \<lparr>Symbol = ''XAUUSD'', Timeframe = ''M1'', StartTime = demo_day + 10 * Hour,
                     Open = 2650, High = 2650, Low = 2650, Close = 2650, Volume = 1\<rparr>\<rparr>,
      \<lparr>Status = ''UPDATE'',
       ev_Candle = \<lparr>Symbol = ''XAUUSD'', Timeframe = ''M1'', StartTime = demo_day + 10 * Hour,
                     Open = 2650, High = 2655, Low = 2650, Close = 2655, Volume = 2\<rparr>\<rparr>,
      \<lparr>Status = ''CLOSE'',
       ev_Candle = \<lparr>Symbol = ''XAUUSD'', Timeframe = ''M1'', StartTime = demo_day + 10 * Hour,
                     Open = 2650, High = 2655, Low = 2650, Close = 2655, Volume = 2\<rparr>\<rparr>,
      \<lparr>Status = ''UPDATE'',
       ev_Candle = \<lparr>Symbol = ''XAUUSD'', Timeframe = ''M1'',
                     StartTime = demo_day + 10 * Hour + 1 * Minute,
                     Open = 2648, High = 2648, Low = 2648, Close = 2648, Volume = 1\<rparr>\<rparr>]"
  by (simp add: events_of_def plain_ticks_def demo_m1_def aggregator_eval demo_clock
        max_f_def min_f_def)

text \<open>
  Claim C1 does not hold of the code.  The hub appends on every \<open>CLOSE\<close> and overwrites the
  newest bar on every \<open>UPDATE\<close>, without looking at the start time.  Fed with the events
  the aggregator publishes for ticks at 10:00:15, 10:00:45 and 10:01:05, the buffer holds
  the bar of 10:00 twice once the \<open>CLOSE\<close> has been processed; fed with the events of a
  gap, it holds the bar of 10:00 after the bars of 10:01 and 10:02.
\<close>

theorem buffer_duplicate_after_close:
  "map cd_Time
     (GetCandles
        (fold (\<lambda>ev m. buffer_event m ev) (take 3 (events_of (run_ticks demo_m1 plain_ticks))) demo_mpm)
        ''XAUUSD:M1'')
     = [demo_day + 10 * Hour, demo_day + 10 * Hour] \<and>
   \<not> strictly_ordered
        (GetCandles
           (fold (\<lambda>ev m. buffer_event m ev) (take 3 (events_of (run_ticks demo_m1 plain_ticks))) demo_mpm)
           ''XAUUSD:M1'') \<and>
   map cd_Time
     (GetCandles
        (fold (\<lambda>ev m. buffer_event m ev) (take 4 (events_of (run_ticks demo_m1 gap_ticks))) demo_mpm)
        ''XAUUSD:M1'')
     = [demo_day + 10 * Hour, demo_day + 10 * Hour + 1 * Minute, demo_day + 10 * Hour + 2 * Minute,
        demo_day + 10 * Hour]"
  unfolding plain_ticks_events gap_ticks_events
  by (simp add: buffer_event_def demo_mpm_def hub_eval strictly_ordered_def opened_bar_def
        gap_bar_def first_tick_def late_tick_def demo_tick_def demo_m1_def
        NewTimeframeAggregator_def Minute_def)

end
